theory Spec2Isabelle
  imports Main "HOL-Library.Sublist"
begin

section \<open>The Go library functions used by \<open>mirrorByIssues\<close>\<close>

text \<open>
  A Go \<open>string\<close> is a sequence of bytes; \<open>string\<close> (a list of 8-bit \<open>char\<close>s) models it
  byte for byte. Where a library function reads the bytes as UTF-8, the model decodes them
  the way package \<open>unicode/utf8\<close> does.
\<close>

subsection \<open>\<open>unicode/utf8\<close>: the width of the first rune\<close>

definition byte :: "char \<Rightarrow> nat" where
  "byte c = of_char c"

definition isASCII :: "string \<Rightarrow> bool" where
  "isASCII s = list_all (\<lambda>c. byte c < 128) s"

text \<open>
  \<open>runeSize b\<close> is the length of the encoding that the lead byte \<open>b\<close> announces (table
  \<open>first\<close> of package \<open>utf8\<close>); 1 for an ASCII byte and for a byte that cannot start a rune.
  \<open>acceptLo\<close> and \<open>acceptHi\<close> bound the second byte (table \<open>acceptRanges\<close>).
\<close>

definition runeSize :: "nat \<Rightarrow> nat" where
  "runeSize b =
     (if b < 0xC2 then 1
      else if b \<le> 0xDF then 2
      else if b \<le> 0xEF then 3
      else if b \<le> 0xF4 then 4
      else 1)"

definition acceptLo :: "nat \<Rightarrow> nat" where
  "acceptLo b = (if b = 0xE0 then 0xA0 else if b = 0xF0 then 0x90 else 0x80)"

definition acceptHi :: "nat \<Rightarrow> nat" where
  "acceptHi b = (if b = 0xED then 0x9F else if b = 0xF4 then 0x8F else 0xBF)"

definition isCont :: "char \<Rightarrow> bool" where
  "isCont c = (0x80 \<le> byte c \<and> byte c \<le> 0xBF)"

text \<open>
  The width that \<open>utf8.DecodeRuneInString\<close> returns: 0 on the empty string, 1 on an ASCII
  byte and on an invalid or truncated encoding (which decodes to \<open>RuneError\<close>), otherwise
  the length of the encoding.
\<close>

fun DecodeRuneWidth :: "string \<Rightarrow> nat" where
  "DecodeRuneWidth [] = 0"
| "DecodeRuneWidth (c # cs) =
     (let sz = runeSize (byte c) in
      if sz = 1 then 1
      else if length (c # cs) < sz then 1
      else if byte (cs ! 0) < acceptLo (byte c) \<or> acceptHi (byte c) < byte (cs ! 0) then 1
      else if sz \<le> 2 then 2
      else if \<not> isCont (cs ! 1) then 1
      else if sz \<le> 3 then 3
      else if \<not> isCont (cs ! 2) then 1
      else 4)"

subsection \<open>Package \<open>strings\<close>\<close>

text \<open>
  \<open>strings.Replace(s, old, new, n)\<close> for a non-empty \<open>old\<close>: the first \<open>n\<close> non-overlapping
  occurrences of \<open>old\<close>, found from left to right, are replaced by \<open>new\<close>; a negative \<open>n\<close>
  puts no limit on their number. Both calls of the program pass a non-empty literal for
  \<open>old\<close>; the case of an empty \<open>old\<close> is left unspecified.
\<close>

fun Replace :: "string \<Rightarrow> string \<Rightarrow> string \<Rightarrow> int \<Rightarrow> string" where
  "Replace [] (a # old) new n = []"
| "Replace (c # s) (a # old) new n =
     (if n \<noteq> 0 \<and> prefix (a # old) (c # s)
      then new @ Replace (drop (length (a # old)) (c # s)) (a # old) new (n - 1)
      else c # Replace s (a # old) new n)"

definition ReplaceAll :: "string \<Rightarrow> string \<Rightarrow> string \<Rightarrow> string" where
  "ReplaceAll s old new = Replace s old new (- 1)"

text \<open>
  \<open>strings.ContainsAny(s, chars)\<close>: some code point of \<open>chars\<close> occurs in \<open>s\<close>. The program
  passes the one ASCII character \<open>@\<close>, for which Go searches the byte; the model is for
  \<open>chars\<close> made of ASCII characters.
\<close>

definition ContainsAny :: "string \<Rightarrow> string \<Rightarrow> bool" where
  "ContainsAny s chars = list_ex (\<lambda>c. c \<in> set chars) s"

text \<open>
  The white space of \<open>unicode.IsSpace\<close>, each code point in its UTF-8 encoding: the six
  ASCII characters, U+0085, U+00A0, U+1680, U+2000 to U+200A, U+2028, U+2029, U+202F,
  U+205F and U+3000.
\<close>

definition spaceRunes :: "string list" where
  "spaceRunes =
     [[CHR 0x09], [CHR 0x0A], [CHR 0x0B], [CHR 0x0C], [CHR 0x0D], [CHR 0x20],
      [CHR 0xC2, CHR 0x85], [CHR 0xC2, CHR 0xA0],
      [CHR 0xE1, CHR 0x9A, CHR 0x80],
      [CHR 0xE2, CHR 0x80, CHR 0x80], [CHR 0xE2, CHR 0x80, CHR 0x81],
      [CHR 0xE2, CHR 0x80, CHR 0x82], [CHR 0xE2, CHR 0x80, CHR 0x83],
      [CHR 0xE2, CHR 0x80, CHR 0x84], [CHR 0xE2, CHR 0x80, CHR 0x85],
      [CHR 0xE2, CHR 0x80, CHR 0x86], [CHR 0xE2, CHR 0x80, CHR 0x87],
      [CHR 0xE2, CHR 0x80, CHR 0x88], [CHR 0xE2, CHR 0x80, CHR 0x89],
      [CHR 0xE2, CHR 0x80, CHR 0x8A],
      [CHR 0xE2, CHR 0x80, CHR 0xA8], [CHR 0xE2, CHR 0x80, CHR 0xA9],
      [CHR 0xE2, CHR 0x80, CHR 0xAF],
      [CHR 0xE2, CHR 0x81, CHR 0x9F],
      [CHR 0xE3, CHR 0x80, CHR 0x80]]"

text \<open>
  The number of bytes of the white-space rune that \<open>s\<close> starts with (\<open>leadingSpace\<close>) or
  ends with (\<open>trailingSpace\<close>), 0 when there is none. No encoding in \<open>spaceRunes\<close> is a
  prefix or a suffix of another, so at most one of them fits.
\<close>

definition leadingSpace :: "string \<Rightarrow> nat" where
  "leadingSpace s = (case filter (\<lambda>w. prefix w s) spaceRunes of [] \<Rightarrow> 0 | w # _ \<Rightarrow> length w)"

definition trailingSpace :: "string \<Rightarrow> nat" where
  "trailingSpace s = (case filter (\<lambda>w. suffix w s) spaceRunes of [] \<Rightarrow> 0 | w # _ \<Rightarrow> length w)"

lemma leadingSpace_le: "leadingSpace s \<le> length s"
  by (auto simp: leadingSpace_def filter_eq_Cons_iff prefix_length_le split: list.splits)

lemma trailingSpace_le: "trailingSpace s \<le> length s"
  by (auto simp: trailingSpace_def filter_eq_Cons_iff suffix_length_le split: list.splits)

function TrimLeft :: "string \<Rightarrow> string" where
  "TrimLeft s = (if leadingSpace s = 0 then s else TrimLeft (drop (leadingSpace s) s))"
  by pat_completeness auto
termination
proof (relation "measure length")
  show "wf (measure length)" by simp
next
  fix s :: string
  assume "leadingSpace s \<noteq> 0"
  with leadingSpace_le [of s] show "(drop (leadingSpace s) s, s) \<in> measure length"
    by simp
qed

function TrimRight :: "string \<Rightarrow> string" where
  "TrimRight s =
     (if trailingSpace s = 0 then s else TrimRight (take (length s - trailingSpace s) s))"
  by pat_completeness auto
termination
proof (relation "measure length")
  show "wf (measure length)" by simp
next
  fix s :: string
  assume "trailingSpace s \<noteq> 0"
  with trailingSpace_le [of s]
  show "(take (length s - trailingSpace s) s, s) \<in> measure length"
    by simp
qed

text \<open>
  \<open>strings.TrimSpace(s)\<close>: \<open>s\<close> without its leading and trailing white space. Go decodes
  runes forwards from the start and backwards from the end; a decoded rune is white space
  exactly when the bytes read are one of \<open>spaceRunes\<close>.
\<close>

definition TrimSpace :: "string \<Rightarrow> string" where
  "TrimSpace s = TrimRight (TrimLeft s)"

text \<open>
  \<open>strings.EqualFold(s, t)\<close>: equality under simple Unicode case folding. Equal strings
  are equal under folding, and two ASCII strings are compared letter by letter without
  regard to case. Go folds the runes of other strings by the tables of package \<open>unicode\<close>,
  which are not modelled: the result is \<open>None\<close> there.
\<close>

definition toLowerASCII :: "char \<Rightarrow> char" where
  "toLowerASCII c = (if 0x41 \<le> byte c \<and> byte c \<le> 0x5A then char_of (byte c + 32) else c)"

definition EqualFold :: "string \<Rightarrow> string \<Rightarrow> bool option" where
  "EqualFold s t =
     (if s = t then Some True
      else if isASCII s \<and> isASCII t then Some (map toLowerASCII s = map toLowerASCII t)
      else None)"

subsection \<open>Package \<open>regexp\<close>\<close>

text \<open>
  The fragment of the RE2 syntax that is modelled: a pattern of at most 1000 bytes that is
  a sequence of ASCII literals, escaped ASCII punctuation, \<open>.\<close> (any rune but a newline),
  \<open>^\<close> (the start of the text) and \<open>$\<close> (the end of the text). The default rules of the
  program are of this form. Two kinds of pattern that \<open>regexp.Compile\<close> rejects are
  modelled as well: a pattern that starts with a repetition operator (missing argument to
  repetition operator) and a pattern that ends in a lone backslash (trailing backslash at
  end of expression). Every other pattern is \<open>NotModelled\<close>: Go may accept or reject it.
\<close>

datatype inst = Lit char | AnyCharNotNL | BeginText | EndText

datatype compiled = BadPattern | NotModelled | Regexp "inst list"

definition isalnum :: "char \<Rightarrow> bool" where
  "isalnum c =
     ((0x30 \<le> byte c \<and> byte c \<le> 0x39) \<or> (0x41 \<le> byte c \<and> byte c \<le> 0x5A)
      \<or> (0x61 \<le> byte c \<and> byte c \<le> 0x7A))"

fun emit :: "inst \<Rightarrow> compiled \<Rightarrow> compiled" where
  "emit i (Regexp prog) = Regexp (i # prog)"
| "emit i BadPattern = BadPattern"
| "emit i NotModelled = NotModelled"

fun parse :: "string \<Rightarrow> compiled" where
  "parse [] = Regexp []"
| "parse (c # t) =
     (if c = CHR 0x5C then
        (case t of
           [] \<Rightarrow> BadPattern
         | d # t' \<Rightarrow> if byte d < 128 \<and> \<not> isalnum d then emit (Lit d) (parse t') else NotModelled)
      else if c = CHR ''.'' then emit AnyCharNotNL (parse t)
      else if c = CHR ''^'' then emit BeginText (parse t)
      else if c = CHR ''$'' then emit EndText (parse t)
      else if c \<in> set ''*+?()[]{}|'' \<or> 128 \<le> byte c then NotModelled
      else emit (Lit c) (parse t))"

definition Compile :: "string \<Rightarrow> compiled" where
  "Compile expr =
     (if 1000 < length expr then NotModelled
      else if expr \<noteq> [] \<and> hd expr \<in> set ''*+?'' then BadPattern
      else parse expr)"

text \<open>
  \<open>matchAt prog s pos\<close>: the end of the match of \<open>prog\<close> that starts at byte \<open>pos\<close> of \<open>s\<close>,
  if there is one. A literal of the fragment is ASCII, so it matches the rune at \<open>pos\<close>
  exactly when it is the byte at \<open>pos\<close>; \<open>.\<close> consumes one rune.
\<close>

fun matchAt :: "inst list \<Rightarrow> string \<Rightarrow> nat \<Rightarrow> nat option" where
  "matchAt [] s pos = Some pos"
| "matchAt (Lit c # prog) s pos =
     (if pos < length s \<and> s ! pos = c then matchAt prog s (pos + 1) else None)"
| "matchAt (AnyCharNotNL # prog) s pos =
     (if pos < length s \<and> s ! pos \<noteq> CHR 0x0A
      then matchAt prog s (pos + DecodeRuneWidth (drop pos s)) else None)"
| "matchAt (BeginText # prog) s pos = (if pos = 0 then matchAt prog s pos else None)"
| "matchAt (EndText # prog) s pos = (if pos = length s then matchAt prog s pos else None)"

lemma matchAt_ge: "matchAt prog s pos = Some e \<Longrightarrow> pos \<le> e"
proof (induction prog s pos rule: matchAt.induct)
  case (2 c prog s pos)
  then show ?case by (fastforce split: if_splits)
next
  case (3 prog s pos)
  then show ?case by (fastforce split: if_splits)
qed (auto split: if_splits)

text \<open>
  \<open>doExecute prog s pos\<close>: the leftmost match at or after \<open>pos\<close>, as the pair of its start
  and its end. The search tries \<open>pos\<close> and then moves on rune by rune, the empty text at
  the end of \<open>s\<close> included.
\<close>

function doExecute :: "inst list \<Rightarrow> string \<Rightarrow> nat \<Rightarrow> (nat \<times> nat) option" where
  "doExecute prog s pos =
     (if length s < pos then None
      else case matchAt prog s pos of
             Some e \<Rightarrow> Some (pos, e)
           | None \<Rightarrow>
               (if DecodeRuneWidth (drop pos s) = 0 then None
                else doExecute prog s (pos + DecodeRuneWidth (drop pos s))))"
  by pat_completeness auto
termination
  by (relation "measure (\<lambda>(prog, s, pos). Suc (length s) - pos)") auto

lemma doExecute_ge: "doExecute prog s pos = Some (a0, a1) \<Longrightarrow> pos \<le> a0 \<and> a0 \<le> a1"
proof (induction prog s pos rule: doExecute.induct)
  case (1 prog s pos)
  show ?case
  proof (cases "matchAt prog s pos")
    case None
    with "1.prems" have w: "DecodeRuneWidth (drop pos s) \<noteq> 0" "\<not> length s < pos"
      and r: "doExecute prog s (pos + DecodeRuneWidth (drop pos s)) = Some (a0, a1)"
      by (auto split: if_splits)
    from "1.IH" [OF w(2) None w(1) r] show ?thesis by simp
  next
    case (Some e)
    with "1.prems" have "a0 = pos" "a1 = e"
      by (auto split: if_splits)
    with Some matchAt_ge [of prog s pos e] show ?thesis by simp
  qed
qed

text \<open>
  The loop of \<open>Regexp.replaceAll\<close>. \<open>buf\<close> collects the output, \<open>lastMatchEnd\<close> is the end of
  the most recent match and \<open>searchPos\<close> the position where the next match is looked for.
  The replacement is not inserted for an empty match right after another match; the search
  always advances by at least one rune. \<open>lastMatchEnd\<close> never exceeds \<open>searchPos\<close>, so the
  slice \<open>src[lastMatchEnd:a0]\<close> is always in range.
\<close>

function replaceAll :: "inst list \<Rightarrow> string \<Rightarrow> string \<Rightarrow> nat \<Rightarrow> nat \<Rightarrow> string \<Rightarrow> string" where
  "replaceAll prog src repl lastMatchEnd searchPos buf =
     (if length src < searchPos then buf @ drop lastMatchEnd src
      else case doExecute prog src searchPos of
             None \<Rightarrow> buf @ drop lastMatchEnd src
           | Some (a0, a1) \<Rightarrow>
               replaceAll prog src repl a1
                 (if a1 < searchPos + DecodeRuneWidth (drop searchPos src)
                  then searchPos + DecodeRuneWidth (drop searchPos src)
                  else if a1 < searchPos + 1 then searchPos + 1
                  else a1)
                 (if lastMatchEnd < a1 \<or> a0 = 0
                  then buf @ take (a0 - lastMatchEnd) (drop lastMatchEnd src) @ repl
                  else buf @ take (a0 - lastMatchEnd) (drop lastMatchEnd src)))"
  by pat_completeness auto
termination
proof (relation "measure (\<lambda>(prog, src, repl, lastMatchEnd, searchPos, buf).
                            Suc (length src) - searchPos)")
  show "wf (measure (\<lambda>(prog, src, repl, lastMatchEnd, searchPos, buf).
                       Suc (length src) - searchPos))"
    by simp
next
  fix prog :: "inst list" and src repl buf :: string and lastMatchEnd searchPos :: nat
    and x2 :: "nat \<times> nat" and a0 a1 :: nat
  assume le: "\<not> length src < searchPos"
    and ex: "doExecute prog src searchPos = Some x2"
    and x2: "(a0, a1) = x2"
  from ex x2 doExecute_ge [of prog src searchPos a0 a1] have "searchPos \<le> a1"
    by simp
  with le
  show "((prog, src, repl, a1,
          if a1 < searchPos + DecodeRuneWidth (drop searchPos src)
          then searchPos + DecodeRuneWidth (drop searchPos src)
          else if a1 < searchPos + 1 then searchPos + 1 else a1,
          if lastMatchEnd < a1 \<or> a0 = 0
          then buf @ take (a0 - lastMatchEnd) (drop lastMatchEnd src) @ repl
          else buf @ take (a0 - lastMatchEnd) (drop lastMatchEnd src)),
         prog, src, repl, lastMatchEnd, searchPos, buf)
        \<in> measure (\<lambda>(prog, src, repl, lastMatchEnd, searchPos, buf).
                      Suc (length src) - searchPos)"
    by auto
qed

text \<open>
  \<open>re.ReplaceAllString(src, repl)\<close>. Inside \<open>repl\<close> a \<open>$\<close> sign starts a reference to a
  submatch, expanded as in \<open>Regexp.Expand\<close>; that expansion is not modelled, and the
  result is \<open>None\<close> for a replacement with a \<open>$\<close> sign. Any other replacement is inserted
  as it is.
\<close>

definition ReplaceAllString :: "inst list \<Rightarrow> string \<Rightarrow> string \<Rightarrow> string option" where
  "ReplaceAllString prog src repl =
     (if CHR ''$'' \<in> set repl then None else Some (replaceAll prog src repl 0 0 []))"

section \<open>The program\<close>

subsection \<open>Data\<close>

text \<open>
  \<open>Config\<close> of \<open>main.go\<close>. \<open>Rules\<close> is a Go map; the program only ever ranges over it, in
  an order the runtime chooses. The model holds the entries as a list, in the order in
  which the \<open>range\<close> loop of this run visits them.
\<close>

record Config =
  GhToken :: string
  GhUser :: string
  Repo :: string
  Registry :: string
  RegistryNamespace :: string
  RegistryUserName :: string
  RegistryPassword :: string
  Rules :: "(string \<times> string) list"
  RunId :: string
  MaxCount :: int
  RulesFile :: string

text \<open>
  The fields of \<open>github.Issue\<close> and \<open>github.User\<close> that the program reads. All three are
  pointers in Go; \<open>None\<close> is the nil pointer.
\<close>

record github_User =
  Login :: "string option"

record github_Issue =
  Title :: "string option"
  User :: "github_User option"

text \<open>
  The Docker daemon behind \<open>client.Client\<close>: the outcome of each call that the program
  makes, \<open>Some\<close> of the error text when the call fails. \<open>mirrorByIssues\<close> makes each call at
  most once, so a function of the arguments covers every behaviour of the daemon.
\<close>

record Docker =
  NewClientWithOpts :: "string option"
  RegistryLogin :: "string \<Rightarrow> string \<Rightarrow> string \<Rightarrow> string option"
  ImagePull :: "string \<Rightarrow> string option"
  ImageTag :: "string \<Rightarrow> string \<Rightarrow> string option"
  ImagePush :: "string \<Rightarrow> string \<times> string \<times> string \<Rightarrow> string option"

text \<open>
  The errors that \<open>mirrorByIssues\<close> returns, one constructor for each \<open>errors.New\<close> of
  the function, with the values that its message is built from.
\<close>

datatype mirror_error =
    DigestNotSupported string
  | RegistryNotSupported string string "string list"
  | DockerLoginError string string
  | DockerPullError string string
  | DockerTagError string string
  | DockerPushError string string

datatype panic = NilPointerDereference | RegexpMustCompile string

text \<open>
  What a call does: it panics, it returns, or it leaves the modelled fragment of the
  library (\<open>Unmodelled\<close>), in which case the model says nothing about the program.
\<close>

datatype 'a run = Panics panic | Unmodelled | Returns 'a

subsection \<open>Loading the rules (\<open>main\<close>, lines 106 to 122)\<close>

definition RulesFileName :: string where
  "RulesFileName = ''rules.yaml''"

definition defaultRules :: "(string \<times> string) list" where
  "defaultRules =
     [(''^gcr.io'', []),
      (''^docker.io'', ''docker''),
      (''^k8s.gcr.io'', ''google-containers''),
      (''^registry.k8s.io'', ''google-containers''),
      (''^quay.io'', ''quay''),
      (''^ghcr.io'', ''ghcr'')]"

text \<open>
  \<open>ReadFile\<close> stands for \<open>ioutil.ReadFile\<close> and \<open>Unmarshal\<close> for \<open>yaml.Unmarshal\<close> into a
  fresh \<open>map[string]string\<close>; \<open>None\<close> is a call that returns an error. The file read is the
  constant \<open>RulesFile\<close> of the program.
\<close>

definition loadRules ::
  "(string \<Rightarrow> string option) \<Rightarrow> (string \<Rightarrow> (string \<times> string) list option)
    \<Rightarrow> (string \<times> string) list" where
  "loadRules ReadFile Unmarshal =
     (case ReadFile RulesFileName of
        None \<Rightarrow> defaultRules
      | Some rulesFile \<Rightarrow>
          (case Unmarshal rulesFile of
             None \<Rightarrow> defaultRules
           | Some rules \<Rightarrow> rules))"

subsection \<open>The Docker helpers\<close>

definition dockerLogin :: "Docker \<Rightarrow> Config \<Rightarrow> string + unit" where
  "dockerLogin d config =
     (case NewClientWithOpts d of
        Some err \<Rightarrow> Inl err
      | None \<Rightarrow>
          (case RegistryLogin d (RegistryUserName config) (RegistryPassword config)
                  (Registry config) of
             Some err \<Rightarrow> Inl err
           | None \<Rightarrow> Inr ()))"

definition dockerPull :: "Docker \<Rightarrow> string \<Rightarrow> string option" where
  "dockerPull d originImageName = ImagePull d originImageName"

definition dockerTag :: "Docker \<Rightarrow> string \<Rightarrow> string \<Rightarrow> string option" where
  "dockerTag d originImageName targetImageName = ImageTag d originImageName targetImageName"

text \<open>
  \<open>dockerPush\<close> sends the user name, the password and the registry as the credentials of
  the push (the server address is set when \<open>Registry\<close> is not empty, and is the empty
  string otherwise, which is \<open>Registry\<close> again). \<open>json.Marshal\<close> of three strings does
  not fail.
\<close>

definition dockerPush :: "Docker \<Rightarrow> string \<Rightarrow> Config \<Rightarrow> string option" where
  "dockerPush d targetImageName config =
     ImagePush d targetImageName
       (RegistryUserName config, RegistryPassword config,
        if 0 < length (Registry config) then Registry config else [])"

subsection \<open>\<open>mirrorByIssues\<close>\<close>

text \<open>
  \<open>*issues.GetUser().Login\<close>: \<open>GetUser\<close> returns the nil pointer for an issue without a
  user, and reading \<open>Login\<close> through it, or dereferencing a nil \<open>Login\<close>, panics
  (\<open>None\<close>).
\<close>

definition GetUserLogin :: "github_Issue \<Rightarrow> string option" where
  "GetUserLogin issues = (case User issues of None \<Rightarrow> None | Some u \<Rightarrow> Login u)"

text \<open>
  An error return whose message names the author of the issue: the message is built
  before the function returns, so a missing login panics instead.
\<close>

definition returnToUser ::
  "github_Issue \<Rightarrow> (string \<Rightarrow> mirror_error) \<Rightarrow> string \<Rightarrow> string
    \<Rightarrow> (mirror_error option \<times> string \<times> string) run" where
  "returnToUser issues mkErr originImageName targetImageName =
     (case GetUserLogin issues of
        None \<Rightarrow> Panics NilPointerDereference
      | Some login \<Rightarrow> Returns (Some (mkErr login), originImageName, targetImageName))"

text \<open>
  The loop over \<open>config.Rules\<close> (lines 235 to 239): every rule is compiled and applied to
  the target that the rules before it have produced, and its pattern is appended to
  \<open>registries\<close>. \<open>regexp.MustCompile\<close> panics on a pattern that does not compile.
\<close>

fun applyRules ::
  "(string \<times> string) list \<Rightarrow> string \<Rightarrow> string list \<Rightarrow> (string \<times> string list) run" where
  "applyRules [] targetImageName registries = Returns (targetImageName, registries)"
| "applyRules ((k, v) # rules) targetImageName registries =
     (case Compile k of
        BadPattern \<Rightarrow> Panics (RegexpMustCompile k)
      | NotModelled \<Rightarrow> Unmodelled
      | Regexp prog \<Rightarrow>
          (case ReplaceAllString prog targetImageName v of
             None \<Rightarrow> Unmodelled
           | Some targetImageName' \<Rightarrow> applyRules rules targetImageName' (registries @ [k])))"

text \<open>
  Lines 245 to 252: the path is flattened, then the namespace and the registry are put in
  front.
\<close>

definition targetName :: "Config \<Rightarrow> string \<Rightarrow> string" where
  "targetName config targetImageName =
     (let t1 = ReplaceAll targetImageName ''/'' ''.'';
          t2 = (if 0 < length (RegistryNamespace config)
                then RegistryNamespace config @ ''/'' @ t1 else t1)
      in if 0 < length (Registry config) then Registry config @ ''/'' @ t2 else t2)"

text \<open>
  \<open>mirrorByIssues\<close> returns the triple of the error (\<open>None\<close> for nil), the origin image
  name and the target image name. What it prints is left out.
\<close>

definition mirrorByIssues ::
  "Docker \<Rightarrow> github_Issue \<Rightarrow> Config \<Rightarrow> (mirror_error option \<times> string \<times> string) run" where
  "mirrorByIssues d issues config =
     (case Title issues of
        None \<Rightarrow> Panics NilPointerDereference
      | Some title \<Rightarrow>
          (let originImageName = TrimSpace (Replace title ''[PORTER]'' [] 1) in
           if ContainsAny originImageName ''@''
           then returnToUser issues DigestNotSupported originImageName originImageName
           else
             (case applyRules (Rules config) originImageName [] of
                Panics p \<Rightarrow> Panics p
              | Unmodelled \<Rightarrow> Unmodelled
              | Returns (substituted, registries) \<Rightarrow>
                  (case EqualFold substituted originImageName of
                     None \<Rightarrow> Unmodelled
                   | Some True \<Rightarrow>
                       returnToUser issues
                         (\<lambda>login. RegistryNotSupported login originImageName registries)
                         originImageName substituted
                   | Some False \<Rightarrow>
                       (let targetImageName = targetName config substituted in
                        case dockerLogin d config of
                          Inl err \<Rightarrow>
                            Returns (Some (DockerLoginError (GhUser config) err),
                                     originImageName, targetImageName)
                        | Inr cli \<Rightarrow>
                            (case dockerPull d originImageName of
                               Some err \<Rightarrow>
                                 returnToUser issues (\<lambda>login. DockerPullError login err)
                                   originImageName targetImageName
                             | None \<Rightarrow>
                                 (case dockerTag d originImageName targetImageName of
                                    Some err \<Rightarrow>
                                      returnToUser issues (\<lambda>login. DockerTagError login err)
                                        originImageName targetImageName
                                  | None \<Rightarrow>
                                      (case dockerPush d targetImageName config of
                                         Some err \<Rightarrow>
                                           returnToUser issues
                                             (\<lambda>login. DockerPushError login err)
                                             originImageName targetImageName
                                       | None \<Rightarrow>
                                           Returns (None, originImageName,
                                                    targetImageName)))))))))"

subsection \<open>The result as the specification reads it\<close>

text \<open>
  The specification speaks of a function \<open>rewrite\<close> with three results. \<open>mirrorByIssues\<close>
  is that function followed by the pull, the tag and the push: \<open>Rejected\<close> is its return
  with the digest error, \<open>NoMatch\<close> its return with the error that lists the supported
  registries, and \<open>Rewritten\<close> every return from the Docker steps, which are only
  reached with the rewritten target.
\<close>

datatype RewriteResult = Rewritten string | NoMatch | Rejected

fun rewriteResult :: "mirror_error option \<times> string \<times> string \<Rightarrow> RewriteResult" where
  "rewriteResult (Some (DigestNotSupported login), origin, target) = Rejected"
| "rewriteResult (Some (RegistryNotSupported login name registries), origin, target) = NoMatch"
| "rewriteResult (err, origin, target) = Rewritten target"

fun rewrite :: "(mirror_error option \<times> string \<times> string) run \<Rightarrow> RewriteResult run" where
  "rewrite (Panics p) = Panics p"
| "rewrite Unmodelled = Unmodelled"
| "rewrite (Returns r) = Returns (rewriteResult r)"

text \<open>A daemon on which every call succeeds, and a complete issue, for the examples.\<close>

definition daemonOK :: Docker where
  "daemonOK =
     \<lparr>NewClientWithOpts = None, RegistryLogin = (\<lambda>u p r. None), ImagePull = (\<lambda>i. None),
      ImageTag = (\<lambda>i t. None), ImagePush = (\<lambda>t a. None)\<rparr>"

definition issueOf :: "string \<Rightarrow> github_Issue" where
  "issueOf title = \<lparr>Title = Some title, User = Some \<lparr>Login = Some ''octocat''\<rparr>\<rparr>"

definition configOf :: "(string \<times> string) list \<Rightarrow> string \<Rightarrow> string \<Rightarrow> Config" where
  "configOf rules namespace registry =
     \<lparr>GhToken = [], GhUser = ''owner'', Repo = ''repo'', Registry = registry,
      RegistryNamespace = namespace, RegistryUserName = ''user'', RegistryPassword = ''secret'',
      Rules = rules, RunId = ''1'', MaxCount = 1, RulesFile = ''rules.yaml''\<rparr>"

text \<open>
  Further values for the examples: a daemon that cannot be reached, a rules file that is
  read and parsed, and one that is missing.
\<close>

definition daemonDown :: Docker where
  "daemonDown = daemonOK\<lparr>NewClientWithOpts := Some ''cannot connect to the Docker daemon''\<rparr>"

definition readFileReturns :: "string \<Rightarrow> string \<Rightarrow> string option" where
  "readFileReturns content name = Some content"

definition readFileFails :: "string \<Rightarrow> string option" where
  "readFileFails name = None"

definition unmarshalReturns ::
  "(string \<times> string) list \<Rightarrow> string \<Rightarrow> (string \<times> string) list option" where
  "unmarshalReturns rules content = Some rules"

text \<open>
  A rule inside the modelled fragment: its pattern compiles, and its replacement is ASCII
  text without a \<open>$\<close> sign.
\<close>

definition compiles :: "string \<Rightarrow> bool" where
  "compiles k =
     (case Compile k of Regexp prog \<Rightarrow> True | BadPattern \<Rightarrow> False | NotModelled \<Rightarrow> False)"

definition plainRule :: "string \<times> string \<Rightarrow> bool" where
  "plainRule r = (compiles (fst r) \<and> CHR ''$'' \<notin> set (snd r) \<and> isASCII (snd r))"

subsection \<open>The library beyond the fragment, as a parameter\<close>

text \<open>
  \<open>mirrorByIssues\<close> above answers \<open>Unmodelled\<close> where a run leaves the modelled part of
  the Go library. For statements about every rule set and every title, the rest of the
  library is a parameter instead: what \<open>regexp.Compile\<close> makes of a pattern outside the
  fragment (\<open>None\<close> for an error, otherwise the function that \<open>ReplaceAllString\<close> computes
  with the compiled pattern), how a replacement with a \<open>$\<close> sign is expanded, and how
  \<open>strings.EqualFold\<close> compares strings that are not both ASCII. A theorem for every value
  of the parameter holds for the library that Go has.
\<close>

record GoLibrary =
  CompileOther :: "string \<Rightarrow> (string \<Rightarrow> string \<Rightarrow> string) option"
  ExpandOther :: "inst list \<Rightarrow> string \<Rightarrow> string \<Rightarrow> string"
  EqualFoldOther :: "string \<Rightarrow> string \<Rightarrow> bool"

datatype regexp = Modelled "inst list" | Other "string \<Rightarrow> string \<Rightarrow> string"

text \<open>\<open>regexp.MustCompile\<close>: \<open>None\<close> is the panic on a pattern that does not compile.\<close>

definition MustCompile :: "GoLibrary \<Rightarrow> string \<Rightarrow> regexp option" where
  "MustCompile lib k =
     (case Compile k of
        BadPattern \<Rightarrow> None
      | NotModelled \<Rightarrow> map_option Other (CompileOther lib k)
      | Regexp prog \<Rightarrow> Some (Modelled prog))"

definition ReplaceAllStringOn :: "GoLibrary \<Rightarrow> regexp \<Rightarrow> string \<Rightarrow> string \<Rightarrow> string" where
  "ReplaceAllStringOn lib re src repl =
     (case re of
        Modelled prog \<Rightarrow>
          (case ReplaceAllString prog src repl of
             Some t \<Rightarrow> t
           | None \<Rightarrow> ExpandOther lib prog src repl)
      | Other f \<Rightarrow> f src repl)"

definition EqualFoldOn :: "GoLibrary \<Rightarrow> string \<Rightarrow> string \<Rightarrow> bool" where
  "EqualFoldOn lib s t =
     (case EqualFold s t of Some b \<Rightarrow> b | None \<Rightarrow> EqualFoldOther lib s t)"

text \<open>The loop over \<open>config.Rules\<close> and \<open>mirrorByIssues\<close> once more, on such a library.\<close>

fun applyRulesOn ::
  "GoLibrary \<Rightarrow> (string \<times> string) list \<Rightarrow> string \<Rightarrow> string list
    \<Rightarrow> (string \<times> string list) run" where
  "applyRulesOn lib [] targetImageName registries = Returns (targetImageName, registries)"
| "applyRulesOn lib ((k, v) # rules) targetImageName registries =
     (case MustCompile lib k of
        None \<Rightarrow> Panics (RegexpMustCompile k)
      | Some re \<Rightarrow>
          applyRulesOn lib rules (ReplaceAllStringOn lib re targetImageName v)
            (registries @ [k]))"

definition mirrorByIssuesOn ::
  "GoLibrary \<Rightarrow> Docker \<Rightarrow> github_Issue \<Rightarrow> Config
    \<Rightarrow> (mirror_error option \<times> string \<times> string) run" where
  "mirrorByIssuesOn lib d issues config =
     (case Title issues of
        None \<Rightarrow> Panics NilPointerDereference
      | Some title \<Rightarrow>
          (let originImageName = TrimSpace (Replace title ''[PORTER]'' [] 1) in
           if ContainsAny originImageName ''@''
           then returnToUser issues DigestNotSupported originImageName originImageName
           else
             (case applyRulesOn lib (Rules config) originImageName [] of
                Panics p \<Rightarrow> Panics p
              | Unmodelled \<Rightarrow> Unmodelled
              | Returns (substituted, registries) \<Rightarrow>
                  (if EqualFoldOn lib substituted originImageName
                   then
                     returnToUser issues
                       (\<lambda>login. RegistryNotSupported login originImageName registries)
                       originImageName substituted
                   else
                     (let targetImageName = targetName config substituted in
                      case dockerLogin d config of
                        Inl err \<Rightarrow>
                          Returns (Some (DockerLoginError (GhUser config) err),
                                   originImageName, targetImageName)
                      | Inr cli \<Rightarrow>
                          (case dockerPull d originImageName of
                             Some err \<Rightarrow>
                               returnToUser issues (\<lambda>login. DockerPullError login err)
                                 originImageName targetImageName
                           | None \<Rightarrow>
                               (case dockerTag d originImageName targetImageName of
                                  Some err \<Rightarrow>
                                    returnToUser issues (\<lambda>login. DockerTagError login err)
                                      originImageName targetImageName
                                | None \<Rightarrow>
                                    (case dockerPush d targetImageName config of
                                       Some err \<Rightarrow>
                                         returnToUser issues
                                           (\<lambda>login. DockerPushError login err)
                                           originImageName targetImageName
                                     | None \<Rightarrow>
                                         Returns (None, originImageName,
                                                  targetImageName)))))))))"

text \<open>
  A value of the parameter for the examples: it rejects every pattern outside the
  fragment. The examples with it stay inside the fragment, where it is not asked.
\<close>

definition libSample :: GoLibrary where
  "libSample =
     \<lparr>CompileOther = (\<lambda>expr. None), ExpandOther = (\<lambda>prog src repl. src),
      EqualFoldOther = (\<lambda>s t. False)\<rparr>"

section \<open>Properties of the library functions\<close>

lemma Replace_zero: "Replace s (a # old) new 0 = s"
  by (induction s) simp_all

lemma Replace_skip:
  "\<not> prefix (a # old) (c # s) \<Longrightarrow>
   Replace (c # s) (a # old) new n = c # Replace s (a # old) new n"
  by auto

lemma Replace_hit:
  "n \<noteq> 0 \<Longrightarrow>
   Replace ((a # old) @ post) (a # old) new n = new @ Replace post (a # old) new (n - 1)"
  by simp

lemma prefix_of_longer_left:
  "prefix xs (ys @ zs) \<Longrightarrow> length xs \<le> length ys \<Longrightarrow> prefix xs ys"
  by (auto simp: prefix_append)

lemma split_last:
  "(c # pre) @ (a # old) @ post = ((c # pre) @ butlast (a # old)) @ (last (a # old) # post)"
proof -
  have "a # old = butlast (a # old) @ [last (a # old)]"
    by (rule append_butlast_last_id [symmetric]) simp
  then have "(c # pre) @ (a # old) @ post
             = (c # pre) @ (butlast (a # old) @ [last (a # old)]) @ post"
    by (rule arg_cong [where f = "\<lambda>x. (c # pre) @ x @ post"])
  then show ?thesis by (simp del: butlast.simps last.simps)
qed

lemma split_last_Cons:
  "c # (pre @ (a # old) @ post) = (c # (pre @ butlast (a # old))) @ (last (a # old) # post)"
  using split_last [of c pre a old post] by (simp only: append_Cons append_assoc)

text \<open>
  With \<open>n = 1\<close> the occurrence of \<open>old\<close> that no other occurrence starts before is the
  one replaced, and everything after it is kept.
\<close>

lemma Replace_first_occurrence:
  assumes "\<not> sublist (a # old) (pre @ butlast (a # old))"
  shows "Replace (pre @ (a # old) @ post) (a # old) new 1 = pre @ new @ post"
  using assms
proof (induction pre)
  case Nil
  have "Replace ((a # old) @ post) (a # old) new 1 = new @ Replace post (a # old) new (1 - 1)"
    by (rule Replace_hit) simp
  then show ?case by (simp add: Replace_zero)
next
  case (Cons c pre)
  from Cons.prems have ns: "\<not> sublist (a # old) (c # (pre @ butlast (a # old)))"
    by (simp del: butlast.simps)
  then have n1: "\<not> prefix (a # old) (c # (pre @ butlast (a # old)))"
    and n2: "\<not> sublist (a # old) (pre @ butlast (a # old))"
    by (simp_all add: sublist_Cons_right del: butlast.simps)
  have np: "\<not> prefix (a # old) (c # (pre @ (a # old) @ post))"
  proof
    assume "prefix (a # old) (c # (pre @ (a # old) @ post))"
    then have "prefix (a # old) ((c # (pre @ butlast (a # old))) @ (last (a # old) # post))"
      by (simp only: split_last_Cons [symmetric])
    then have "prefix (a # old) (c # (pre @ butlast (a # old)))"
      by (rule prefix_of_longer_left) simp
    with n1 show False by contradiction
  qed
  from Cons.IH [OF n2]
  have ih: "Replace (pre @ (a # old) @ post) (a # old) new 1 = pre @ new @ post" .
  have "Replace (c # (pre @ (a # old) @ post)) (a # old) new 1
        = c # Replace (pre @ (a # old) @ post) (a # old) new 1"
    using np by (rule Replace_skip)
  with ih show ?case by (simp del: Replace.simps)
qed

lemma Replace_no_occurrence:
  "\<not> sublist (a # old) s \<Longrightarrow> Replace s (a # old) new n = s"
proof (induction s)
  case Nil
  then show ?case by simp
next
  case (Cons c s)
  from Cons.prems have n1: "\<not> prefix (a # old) (c # s)" and n2: "\<not> sublist (a # old) s"
    by (simp_all add: sublist_Cons_right)
  from n1 have "Replace (c # s) (a # old) new n = c # Replace s (a # old) new n"
    by (rule Replace_skip)
  with Cons.IH [OF n2] show ?case by (simp del: Replace.simps)
qed

lemma Replace_char_all:
  "n < 0 \<Longrightarrow> Replace s [a] [b] n = map (\<lambda>c. if c = a then b else c) s"
  by (induction s arbitrary: n) auto

lemma set_Replace: "set (Replace s (a # old) new n) \<subseteq> set s \<union> set new"
proof (induction s "a # old" new n rule: Replace.induct)
  case (1 new n)
  then show ?case by simp
next
  case (2 c s new n)
  show ?case
  proof (cases "n \<noteq> 0 \<and> prefix (a # old) (c # s)")
    case True
    with 2 have "set (Replace (drop (length (a # old)) (c # s)) (a # old) new (n - 1))
                 \<subseteq> set (drop (length (a # old)) (c # s)) \<union> set new"
      by blast
    moreover have "set (drop (length (a # old)) (c # s)) \<subseteq> set (c # s)"
      by (rule set_drop_subset)
    ultimately
    have "set (new @ Replace (drop (length (a # old)) (c # s)) (a # old) new (n - 1))
          \<subseteq> set (c # s) \<union> set new"
      by auto
    moreover from True have "Replace (c # s) (a # old) new n
        = new @ Replace (drop (length (a # old)) (c # s)) (a # old) new (n - 1)"
      by simp
    ultimately show ?thesis by (simp only:)
  next
    case False
    with 2 have "set (Replace s (a # old) new n) \<subseteq> set s \<union> set new"
      by blast
    moreover from False have "Replace (c # s) (a # old) new n = c # Replace s (a # old) new n"
      by auto
    ultimately show ?thesis by auto
  qed
qed

lemma set_TrimLeft: "set (TrimLeft s) \<subseteq> set s"
proof (induction s rule: TrimLeft.induct)
  case (1 s)
  show ?case
  proof (cases "leadingSpace s = 0")
    case True
    then show ?thesis by simp
  next
    case False
    with 1 have "set (TrimLeft (drop (leadingSpace s) s)) \<subseteq> set (drop (leadingSpace s) s)"
      by blast
    moreover have "set (drop (leadingSpace s) s) \<subseteq> set s"
      by (rule set_drop_subset)
    moreover from False have "TrimLeft s = TrimLeft (drop (leadingSpace s) s)"
      by (subst TrimLeft.simps) simp
    ultimately show ?thesis by (simp only:)
  qed
qed

lemma set_TrimRight: "set (TrimRight s) \<subseteq> set s"
proof (induction s rule: TrimRight.induct)
  case (1 s)
  show ?case
  proof (cases "trailingSpace s = 0")
    case True
    then show ?thesis by simp
  next
    case False
    with 1 have "set (TrimRight (take (length s - trailingSpace s) s))
                 \<subseteq> set (take (length s - trailingSpace s) s)"
      by blast
    moreover have "set (take (length s - trailingSpace s) s) \<subseteq> set s"
      by (rule set_take_subset)
    moreover from False have "TrimRight s = TrimRight (take (length s - trailingSpace s) s)"
      by (subst TrimRight.simps) simp
    ultimately show ?thesis by (simp only:)
  qed
qed

lemma set_TrimSpace: "set (TrimSpace s) \<subseteq> set s"
  unfolding TrimSpace_def using set_TrimRight [of "TrimLeft s"] set_TrimLeft [of s] by blast

text \<open>The output of \<open>replaceAll\<close> is made of bytes of the source and of the replacement.\<close>

lemma set_replaceAll:
  "set (replaceAll prog src repl lastMatchEnd searchPos buf) \<subseteq> set buf \<union> set src \<union> set repl"
proof (induction prog src repl lastMatchEnd searchPos buf rule: replaceAll.induct)
  case (1 prog src repl lastMatchEnd searchPos buf)
  have dr: "set (drop lastMatchEnd src) \<subseteq> set src"
    by (rule set_drop_subset)
  show ?case
  proof (cases "length src < searchPos")
    case True
    then have "replaceAll prog src repl lastMatchEnd searchPos buf = buf @ drop lastMatchEnd src"
      by (subst replaceAll.simps) simp
    with dr show ?thesis by auto
  next
    case False
    note nl = this
    show ?thesis
    proof (cases "doExecute prog src searchPos")
      case None
      with nl
      have "replaceAll prog src repl lastMatchEnd searchPos buf = buf @ drop lastMatchEnd src"
        by (subst replaceAll.simps) simp
      with dr show ?thesis by auto
    next
      case (Some a)
      obtain a0 a1 where a: "a = (a0, a1)" by (cases a)
      let ?sp = "if a1 < searchPos + DecodeRuneWidth (drop searchPos src)
                  then searchPos + DecodeRuneWidth (drop searchPos src)
                  else if a1 < searchPos + 1 then searchPos + 1
                  else a1"
      let ?buf = "if lastMatchEnd < a1 \<or> a0 = 0
                  then buf @ take (a0 - lastMatchEnd) (drop lastMatchEnd src) @ repl
                  else buf @ take (a0 - lastMatchEnd) (drop lastMatchEnd src)"
      from nl Some a have eq: "replaceAll prog src repl lastMatchEnd searchPos buf
          = replaceAll prog src repl a1 ?sp ?buf"
        by (subst replaceAll.simps) simp
      from "1.IH" [OF nl Some a [symmetric]]
      have ih: "set (replaceAll prog src repl a1 ?sp ?buf) \<subseteq> set ?buf \<union> set src \<union> set repl" .
      have "set (take (a0 - lastMatchEnd) (drop lastMatchEnd src)) \<subseteq> set src"
        using set_take_subset [of "a0 - lastMatchEnd" "drop lastMatchEnd src"] dr by blast
      then have "set ?buf \<subseteq> set buf \<union> set src \<union> set repl"
        by auto
      with ih eq show ?thesis by (simp only:) blast
    qed
  qed
qed

lemma isASCII_subset: "isASCII t \<Longrightarrow> set s \<subseteq> set t \<Longrightarrow> isASCII s"
  by (auto simp: isASCII_def list_all_iff)

lemma isASCII_append: "isASCII (s @ t) \<longleftrightarrow> isASCII s \<and> isASCII t"
  by (auto simp: isASCII_def)

lemma ReplaceAllString_ASCII:
  assumes "ReplaceAllString prog src repl = Some t" "isASCII src" "isASCII repl"
  shows "isASCII t"
proof -
  from assms(1) have t: "t = replaceAll prog src repl 0 0 []"
    by (simp add: ReplaceAllString_def split: if_splits)
  have "set t \<subseteq> set (src @ repl)"
    unfolding t using set_replaceAll [of prog src repl 0 0 "[]"] by simp
  moreover from assms(2,3) have "isASCII (src @ repl)" by (simp add: isASCII_append)
  ultimately show ?thesis by (rule isASCII_subset [rotated])
qed

lemma EqualFold_ASCII: "isASCII s \<Longrightarrow> isASCII t \<Longrightarrow> \<exists>b. EqualFold s t = Some b"
  by (auto simp: EqualFold_def)

lemma ContainsAny_at: "ContainsAny s ''@'' \<longleftrightarrow> CHR ''@'' \<in> set s"
  by (simp add: ContainsAny_def list_ex_iff)

section \<open>Properties of \<open>mirrorByIssues\<close>\<close>

lemma returnToUser_login:
  "GetUserLogin issues = Some login \<Longrightarrow>
   returnToUser issues mkErr origin target = Returns (Some (mkErr login), origin, target)"
  by (simp add: returnToUser_def)

text \<open>
  What the specification's \<open>rewrite\<close> sees of a run on an issue with a login: the Docker
  steps do not show.
\<close>

lemma rewrite_mirrorByIssues:
  assumes "GetUserLogin issues = Some login"
  shows "rewrite (mirrorByIssues d issues config) =
     (case Title issues of
        None \<Rightarrow> Panics NilPointerDereference
      | Some title \<Rightarrow>
          (if ContainsAny (TrimSpace (Replace title ''[PORTER]'' [] 1)) ''@''
           then Returns Rejected
           else
             (case applyRules (Rules config) (TrimSpace (Replace title ''[PORTER]'' [] 1)) [] of
                Panics p \<Rightarrow> Panics p
              | Unmodelled \<Rightarrow> Unmodelled
              | Returns (substituted, registries) \<Rightarrow>
                  (case EqualFold substituted (TrimSpace (Replace title ''[PORTER]'' [] 1)) of
                     None \<Rightarrow> Unmodelled
                   | Some True \<Rightarrow> Returns NoMatch
                   | Some False \<Rightarrow> Returns (Rewritten (targetName config substituted))))))"
  using assms
  by (simp add: mirrorByIssues_def Let_def returnToUser_login
        split: option.split run.split prod.split bool.split sum.split)

text \<open>The path through the loop and past the comparison, in one step.\<close>

lemma rewritten_path:
  assumes "Title issues = Some title"
    and "TrimSpace (Replace title ''[PORTER]'' [] 1) = origin"
    and "CHR ''@'' \<notin> set origin"
    and "applyRules (Rules config) origin [] = Returns (substituted, registries)"
    and "EqualFold substituted origin = Some False"
    and "targetName config substituted = target"
    and "GetUserLogin issues = Some login"
  shows "rewrite (mirrorByIssues d issues config) = Returns (Rewritten target)"
  using assms by (simp add: rewrite_mirrorByIssues ContainsAny_at)

lemma mirrorByIssues_origin:
  assumes "mirrorByIssues d issues config = Returns (err, origin, target)"
  shows "\<exists>title. Title issues = Some title \<and> origin = TrimSpace (Replace title ''[PORTER]'' [] 1)"
  using assms
  by (auto simp: mirrorByIssues_def Let_def returnToUser_def
        split: option.splits run.splits prod.splits bool.splits sum.splits if_splits)

lemma applyRules_returns:
  assumes "list_all plainRule rules" and "isASCII target"
  shows "\<exists>t. applyRules rules target regs = Returns (t, regs @ map fst rules) \<and> isASCII t"
  using assms
proof (induction rules arbitrary: target regs)
  case Nil
  then show ?case by simp
next
  case (Cons r rules)
  obtain k v where r: "r = (k, v)" by (cases r)
  from Cons.prems have pr: "plainRule r" and rest: "list_all plainRule rules"
    by simp_all
  from pr r have pk: "compiles k" and pd: "CHR ''$'' \<notin> set v" and pa: "isASCII v"
    by (simp_all add: plainRule_def)
  from pk obtain prog where c: "Compile k = Regexp prog"
    by (auto simp: compiles_def split: compiled.splits)
  from pd have ra: "ReplaceAllString prog target v = Some (replaceAll prog target v 0 0 [])"
    by (simp add: ReplaceAllString_def)
  from ReplaceAllString_ASCII [OF ra Cons.prems(2) pa]
  have asc: "isASCII (replaceAll prog target v 0 0 [])" .
  from Cons.IH [OF rest asc, of "regs @ [k]"] obtain t
    where t: "applyRules rules (replaceAll prog target v 0 0 []) (regs @ [k])
              = Returns (t, (regs @ [k]) @ map fst rules)" and ta: "isASCII t"
    by blast
  from c ra t have "applyRules (r # rules) target regs = Returns (t, regs @ map fst (r # rules))"
    by (simp add: r)
  with ta show ?case by blast
qed

lemma origin_ASCII: "isASCII title \<Longrightarrow> isASCII (TrimSpace (Replace title ''[PORTER]'' [] 1))"
proof -
  assume a: "isASCII title"
  have "set (TrimSpace (Replace title ''[PORTER]'' [] 1))
        \<subseteq> set (Replace title ''[PORTER]'' [] 1)"
    by (rule set_TrimSpace)
  moreover have "set (Replace title ''[PORTER]'' [] 1) \<subseteq> set title \<union> set []"
    by (rule set_Replace)
  ultimately have "set (TrimSpace (Replace title ''[PORTER]'' [] 1)) \<subseteq> set title"
    by auto
  with a show ?thesis by (rule isASCII_subset)
qed

lemma targetName_cong:
  "RegistryNamespace c1 = RegistryNamespace c2 \<Longrightarrow> Registry c1 = Registry c2
   \<Longrightarrow> targetName c1 t = targetName c2 t"
  by (simp add: targetName_def Let_def)

lemma issueOf_Title: "Title (issueOf title) = Some title"
  by (simp add: issueOf_def)

lemma issueOf_login: "GetUserLogin (issueOf title) = Some ''octocat''"
  by (simp add: issueOf_def GetUserLogin_def)

text \<open>
  Where \<open>mirrorByIssues\<close> gives an answer, \<open>mirrorByIssuesOn\<close> gives the same answer on
  every library.
\<close>

lemma applyRulesOn_agrees:
  "applyRules rules target regs \<noteq> Unmodelled \<Longrightarrow>
   applyRulesOn lib rules target regs = applyRules rules target regs"
proof (induction rules arbitrary: target regs)
  case Nil
  then show ?case by simp
next
  case (Cons r rules)
  obtain k v where r: "r = (k, v)" by (cases r)
  show ?case
  proof (cases "Compile k")
    case BadPattern
    then show ?thesis by (simp add: r MustCompile_def)
  next
    case NotModelled
    with Cons.prems show ?thesis by (simp add: r)
  next
    case (Regexp prog)
    show ?thesis
    proof (cases "ReplaceAllString prog target v")
      case None
      with Regexp Cons.prems show ?thesis by (simp add: r)
    next
      case (Some t)
      with Regexp Cons.prems have "applyRules rules t (regs @ [k]) \<noteq> Unmodelled"
        by (simp add: r)
      from Cons.IH [OF this] Regexp Some show ?thesis
        by (simp add: r MustCompile_def ReplaceAllStringOn_def)
    qed
  qed
qed

lemma mirrorByIssuesOn_agrees:
  assumes "mirrorByIssues d issues config \<noteq> Unmodelled"
  shows "mirrorByIssuesOn lib d issues config = mirrorByIssues d issues config"
proof (cases "Title issues")
  case None
  then show ?thesis by (simp add: mirrorByIssues_def mirrorByIssuesOn_def)
next
  case (Some title)
  let ?origin = "TrimSpace (Replace title ''[PORTER]'' [] 1)"
  show ?thesis
  proof (cases "ContainsAny ?origin ''@''")
    case True
    with Some show ?thesis by (simp add: mirrorByIssues_def mirrorByIssuesOn_def)
  next
    case False
    with Some assms have nu: "applyRules (Rules config) ?origin [] \<noteq> Unmodelled"
      by (auto simp: mirrorByIssues_def Let_def)
    from applyRulesOn_agrees [OF nu]
    have ag: "applyRulesOn lib (Rules config) ?origin [] = applyRules (Rules config) ?origin []" .
    show ?thesis
    proof (cases "applyRules (Rules config) ?origin []")
      case (Panics p)
      with Some False ag show ?thesis by (simp add: mirrorByIssues_def mirrorByIssuesOn_def)
    next
      case Unmodelled
      with nu show ?thesis by simp
    next
      case (Returns res)
      obtain substituted registries where res: "res = (substituted, registries)" by (cases res)
      from Some False Returns res assms obtain b where b: "EqualFold substituted ?origin = Some b"
        by (cases "EqualFold substituted ?origin") (auto simp: mirrorByIssues_def Let_def)
      from Some False Returns res ag b show ?thesis
        by (cases b) (simp_all add: mirrorByIssues_def mirrorByIssuesOn_def Let_def EqualFoldOn_def)
    qed
  qed
qed

lemma applyRulesOn_returns:
  "list_all (\<lambda>r. MustCompile lib (fst r) \<noteq> None) rules \<Longrightarrow>
   \<exists>t. applyRulesOn lib rules target regs = Returns (t, regs @ map fst rules)"
proof (induction rules arbitrary: target regs)
  case Nil
  then show ?case by simp
next
  case (Cons r rules)
  obtain k v where r: "r = (k, v)" by (cases r)
  from Cons.prems r obtain re where re: "MustCompile lib k = Some re"
    and rest: "list_all (\<lambda>r. MustCompile lib (fst r) \<noteq> None) rules"
    by auto
  from Cons.IH [OF rest, of "ReplaceAllStringOn lib re target v" "regs @ [k]"] obtain t
    where "applyRulesOn lib rules (ReplaceAllStringOn lib re target v) (regs @ [k])
           = Returns (t, (regs @ [k]) @ map fst rules)"
    by blast
  with re have "applyRulesOn lib (r # rules) target regs = Returns (t, regs @ map fst (r # rules))"
    by (simp add: r)
  then show ?case by blast
qed

text \<open>The loop panics on the first pattern that does not compile, wherever it stands.\<close>

lemma applyRulesOn_panics:
  "list_ex (\<lambda>r. MustCompile lib (fst r) = None) rules \<Longrightarrow>
   \<exists>k. k \<in> set (map fst rules) \<and> MustCompile lib k = None
        \<and> applyRulesOn lib rules target regs = Panics (RegexpMustCompile k)"
proof (induction rules arbitrary: target regs)
  case Nil
  then show ?case by simp
next
  case (Cons r rules)
  obtain k v where r: "r = (k, v)" by (cases r)
  show ?case
  proof (cases "MustCompile lib k")
    case None
    then have "applyRulesOn lib (r # rules) target regs = Panics (RegexpMustCompile k)"
      by (simp add: r)
    with None r show ?thesis by auto
  next
    case (Some re)
    with Cons.prems r have "list_ex (\<lambda>r. MustCompile lib (fst r) = None) rules"
      by simp
    from Cons.IH [OF this, of "ReplaceAllStringOn lib re target v" "regs @ [k]"] obtain k'
      where k': "k' \<in> set (map fst rules)" "MustCompile lib k' = None"
        "applyRulesOn lib rules (ReplaceAllStringOn lib re target v) (regs @ [k])
         = Panics (RegexpMustCompile k')"
      by blast
    from k'(3) Some have "applyRulesOn lib (r # rules) target regs = Panics (RegexpMustCompile k')"
      by (simp add: r)
    with k'(1,2) show ?thesis by auto
  qed
qed

text \<open>Inside the fragment \<open>mirrorByIssues\<close> itself returns.\<close>

lemma returns_in_fragment:
  assumes "Title issues = Some title" and "GetUserLogin issues = Some login"
    and "isASCII title" and "list_all plainRule (Rules config)"
  shows "\<exists>ret. mirrorByIssues d issues config = Returns ret"
proof -
  let ?origin = "TrimSpace (Replace title ''[PORTER]'' [] 1)"
  from assms(3) have oa: "isASCII ?origin" by (simp add: origin_ASCII)
  from applyRules_returns [OF assms(4) oa, of "[]"] obtain t
    where t: "applyRules (Rules config) ?origin [] = Returns (t, map fst (Rules config))"
      and ta: "isASCII t"
    by auto
  from EqualFold_ASCII [OF ta oa] obtain b where b: "EqualFold t ?origin = Some b" by blast
  from assms(1,2) t b show ?thesis
    by (simp add: mirrorByIssues_def Let_def returnToUser_login
          split: option.split sum.split bool.split)
qed

section \<open>The claims\<close>

text \<open>
  Claim C4. Every source with the character \<open>@\<close> is rejected with the digest error,
  whatever the rules are: the function returns before it compiles or applies any rule, so
  even a rule set with a pattern that does not compile makes no difference.
\<close>

theorem digest_rejected:
  assumes "Title issues = Some title"
    and "CHR ''@'' \<in> set (TrimSpace (Replace title ''[PORTER]'' [] 1))"
    and "GetUserLogin issues = Some login"
  shows "mirrorByIssues d issues config =
           Returns (Some (DigestNotSupported login),
                    TrimSpace (Replace title ''[PORTER]'' [] 1),
                    TrimSpace (Replace title ''[PORTER]'' [] 1))
         \<and> rewrite (mirrorByIssues d issues config) = Returns Rejected"
  using assms by (simp add: mirrorByIssues_def Let_def ContainsAny_at returnToUser_login)

theorem digest_rejected_witness:
  "CHR ''@'' \<in> set (TrimSpace (Replace ''gcr.io/foo/bar@sha256:abcd'' ''[PORTER]'' [] 1))
   \<and> Compile ''*.gcr.io'' = BadPattern
   \<and> mirrorByIssues daemonOK (issueOf ''gcr.io/foo/bar@sha256:abcd'')
       (configOf [(''*.gcr.io'', ''mirror'')] ''mirror'' []) =
       Returns (Some (DigestNotSupported ''octocat''),
                ''gcr.io/foo/bar@sha256:abcd'', ''gcr.io/foo/bar@sha256:abcd'')
   \<and> rewrite (mirrorByIssues daemonOK (issueOf ''gcr.io/foo/bar@sha256:abcd'')
       (configOf [(''*.gcr.io'', ''mirror'')] ''mirror'' [])) = Returns Rejected"
proof -
  have o: "TrimSpace (Replace ''gcr.io/foo/bar@sha256:abcd'' ''[PORTER]'' [] 1)
           = ''gcr.io/foo/bar@sha256:abcd''"
    by code_simp
  have h: "CHR ''@'' \<in> set (TrimSpace (Replace ''gcr.io/foo/bar@sha256:abcd'' ''[PORTER]'' [] 1))"
    by code_simp
  have c: "Compile ''*.gcr.io'' = BadPattern"
    by code_simp
  have "mirrorByIssues daemonOK (issueOf ''gcr.io/foo/bar@sha256:abcd'')
       (configOf [(''*.gcr.io'', ''mirror'')] ''mirror'' []) =
       Returns (Some (DigestNotSupported ''octocat''),
                ''gcr.io/foo/bar@sha256:abcd'', ''gcr.io/foo/bar@sha256:abcd'')
      \<and> rewrite (mirrorByIssues daemonOK (issueOf ''gcr.io/foo/bar@sha256:abcd'')
       (configOf [(''*.gcr.io'', ''mirror'')] ''mirror'' [])) = Returns Rejected"
    using digest_rejected [OF issueOf_Title h issueOf_login, of daemonOK
      "configOf [(''*.gcr.io'', ''mirror'')] ''mirror'' []"]
    unfolding o .
  with h c show ?thesis by blast
qed

text \<open>
  Claim C9. When \<open>mirrorByIssues\<close> returns the digest error, the target image name it
  returns is the origin image name: the trimmed title, with an \<open>@\<close> in it, to which no
  rule, no flattening and no prefix has been applied.
\<close>

theorem rejected_target_is_origin:
  assumes "mirrorByIssues d issues config =
             Returns (Some (DigestNotSupported login), origin, target)"
  shows "target = origin
         \<and> (\<exists>title. Title issues = Some title
                \<and> origin = TrimSpace (Replace title ''[PORTER]'' [] 1)
                \<and> CHR ''@'' \<in> set origin)"
  using assms
  by (auto simp: mirrorByIssues_def Let_def returnToUser_def ContainsAny_at
        split: option.splits run.splits prod.splits bool.splits sum.splits if_splits)

theorem rejected_target_is_origin_witness:
  "mirrorByIssues daemonOK (issueOf ''[PORTER] gcr.io/foo/bar@sha256:abcd'')
     (configOf defaultRules ''mirror'' ''registry.example.com'') =
     Returns (Some (DigestNotSupported ''octocat''),
              ''gcr.io/foo/bar@sha256:abcd'', ''gcr.io/foo/bar@sha256:abcd'')
   \<and> ''gcr.io/foo/bar@sha256:abcd'' = ''gcr.io/foo/bar@sha256:abcd''
   \<and> (\<exists>title. Title (issueOf ''[PORTER] gcr.io/foo/bar@sha256:abcd'') = Some title
          \<and> ''gcr.io/foo/bar@sha256:abcd'' = TrimSpace (Replace title ''[PORTER]'' [] 1)
          \<and> CHR ''@'' \<in> set ''gcr.io/foo/bar@sha256:abcd'')"
proof -
  have e: "mirrorByIssues daemonOK (issueOf ''[PORTER] gcr.io/foo/bar@sha256:abcd'')
     (configOf defaultRules ''mirror'' ''registry.example.com'') =
     Returns (Some (DigestNotSupported ''octocat''),
              ''gcr.io/foo/bar@sha256:abcd'', ''gcr.io/foo/bar@sha256:abcd'')"
    by code_simp
  from e rejected_target_is_origin [OF e] show ?thesis by (rule conjI)
qed

text \<open>
  Claim C3. For a source without \<open>@\<close>: when the target that the rules have produced is
  equal to the source under case folding, \<open>mirrorByIssues\<close> returns the error that lists
  the supported registries (\<open>NoMatch\<close>). Only the final target is compared with the
  source; whether a rule matched on the way plays no part.
\<close>

theorem unchanged_target_is_NoMatch:
  assumes "Title issues = Some title"
    and "origin = TrimSpace (Replace title ''[PORTER]'' [] 1)"
    and "CHR ''@'' \<notin> set origin"
    and "applyRules (Rules config) origin [] = Returns (substituted, registries)"
    and "EqualFold substituted origin = Some True"
    and "GetUserLogin issues = Some login"
  shows "mirrorByIssues d issues config =
           Returns (Some (RegistryNotSupported login origin registries), origin, substituted)
         \<and> rewrite (mirrorByIssues d issues config) = Returns NoMatch"
  using assms by (simp add: mirrorByIssues_def Let_def ContainsAny_at returnToUser_login)

text \<open>
  The witness is a source that a rule matches and changes, in the case of its letters
  only.
\<close>

theorem unchanged_target_is_NoMatch_witness:
  "''gcr.io/pause:3.2'' = TrimSpace (Replace ''gcr.io/pause:3.2'' ''[PORTER]'' [] 1)
   \<and> CHR ''@'' \<notin> set ''gcr.io/pause:3.2''
   \<and> applyRules (Rules (configOf [(''^gcr.io'', ''GCR.IO'')] ''mirror'' [])) ''gcr.io/pause:3.2'' []
       = Returns (''GCR.IO/pause:3.2'', [''^gcr.io''])
   \<and> EqualFold ''GCR.IO/pause:3.2'' ''gcr.io/pause:3.2'' = Some True
   \<and> mirrorByIssues daemonOK (issueOf ''gcr.io/pause:3.2'')
        (configOf [(''^gcr.io'', ''GCR.IO'')] ''mirror'' []) =
        Returns (Some (RegistryNotSupported ''octocat'' ''gcr.io/pause:3.2'' [''^gcr.io'']),
                 ''gcr.io/pause:3.2'', ''GCR.IO/pause:3.2'')
   \<and> rewrite (mirrorByIssues daemonOK (issueOf ''gcr.io/pause:3.2'')
        (configOf [(''^gcr.io'', ''GCR.IO'')] ''mirror'' [])) = Returns NoMatch"
proof -
  have o: "''gcr.io/pause:3.2'' = TrimSpace (Replace ''gcr.io/pause:3.2'' ''[PORTER]'' [] 1)"
    by code_simp
  have n: "CHR ''@'' \<notin> set ''gcr.io/pause:3.2''"
    by code_simp
  have a: "applyRules (Rules (configOf [(''^gcr.io'', ''GCR.IO'')] ''mirror'' []))
             ''gcr.io/pause:3.2'' [] = Returns (''GCR.IO/pause:3.2'', [''^gcr.io''])"
    by code_simp
  have f: "EqualFold ''GCR.IO/pause:3.2'' ''gcr.io/pause:3.2'' = Some True"
    by code_simp
  from unchanged_target_is_NoMatch [OF issueOf_Title o n a f issueOf_login, of daemonOK]
  have "mirrorByIssues daemonOK (issueOf ''gcr.io/pause:3.2'')
        (configOf [(''^gcr.io'', ''GCR.IO'')] ''mirror'' []) =
        Returns (Some (RegistryNotSupported ''octocat'' ''gcr.io/pause:3.2'' [''^gcr.io'']),
                 ''gcr.io/pause:3.2'', ''GCR.IO/pause:3.2'')
   \<and> rewrite (mirrorByIssues daemonOK (issueOf ''gcr.io/pause:3.2'')
        (configOf [(''^gcr.io'', ''GCR.IO'')] ''mirror'' [])) = Returns NoMatch" .
  with o n a f show ?thesis by blast
qed

text \<open>
  Claim C8, as amended. With an empty rule set, every source without \<open>@\<close> gets
  \<open>NoMatch\<close>. A source with \<open>@\<close> is rejected before the rules are looked at, so the
  claim as the specification states it, for every source, does not hold.
\<close>

theorem empty_rules_NoMatch:
  assumes "Rules config = []"
    and "Title issues = Some title"
    and "CHR ''@'' \<notin> set (TrimSpace (Replace title ''[PORTER]'' [] 1))"
    and "GetUserLogin issues = Some login"
  shows "rewrite (mirrorByIssues d issues config) = Returns NoMatch"
  using assms
  by (simp add: mirrorByIssues_def Let_def ContainsAny_at returnToUser_login EqualFold_def)

theorem empty_rules_NoMatch_witness:
  "Rules (configOf [] ''mirror'' []) = []
   \<and> CHR ''@'' \<notin> set (TrimSpace (Replace ''gcr.io/pause:3.2'' ''[PORTER]'' [] 1))
   \<and> rewrite (mirrorByIssues daemonOK (issueOf ''gcr.io/pause:3.2'') (configOf [] ''mirror'' []))
       = Returns NoMatch"
proof -
  have r: "Rules (configOf [] ''mirror'' []) = []"
    by (simp add: configOf_def)
  have n: "CHR ''@'' \<notin> set (TrimSpace (Replace ''gcr.io/pause:3.2'' ''[PORTER]'' [] 1))"
    by code_simp
  from r n empty_rules_NoMatch [OF r issueOf_Title n issueOf_login, of daemonOK]
  show ?thesis by blast
qed

theorem empty_rules_digest_counterexample:
  "rewrite (mirrorByIssues daemonOK (issueOf ''gcr.io/foo/bar@sha256:abcd'')
             (configOf [] ''mirror'' [])) = Returns Rejected
   \<and> Rules (configOf [] ''mirror'' []) = []"
  by code_simp

text \<open>
  Claim C10. The origin image name that \<open>mirrorByIssues\<close> works on and returns is the
  title without its first occurrence of \<open>[PORTER]\<close>, trimmed of white space at both ends.
  What follows the first occurrence is kept as it is, a further \<open>[PORTER]\<close> included. A
  title without \<open>[PORTER]\<close> is only trimmed.
\<close>

theorem origin_is_title_without_first_PORTER:
  assumes "mirrorByIssues d issues config = Returns (err, origin, target)"
  shows "(Title issues = Some (pre @ ''[PORTER]'' @ post)
            \<and> \<not> sublist ''[PORTER]'' (pre @ ''[PORTER'')
          \<longrightarrow> origin = TrimSpace (pre @ post))
         \<and> (Title issues = Some title \<and> \<not> sublist ''[PORTER]'' title
          \<longrightarrow> origin = TrimSpace title)"
proof -
  from mirrorByIssues_origin [OF assms] obtain t
    where t: "Title issues = Some t" and o: "origin = TrimSpace (Replace t ''[PORTER]'' [] 1)"
    by blast
  have first: "\<not> sublist ''[PORTER]'' (pre @ ''[PORTER'')
       \<Longrightarrow> Replace (pre @ ''[PORTER]'' @ post) ''[PORTER]'' [] 1 = pre @ [] @ post"
    using Replace_first_occurrence [of "CHR ''[''" "''PORTER]''" pre post "[]"] by simp
  have none: "\<not> sublist ''[PORTER]'' title \<Longrightarrow> Replace title ''[PORTER]'' [] 1 = title"
    by (rule Replace_no_occurrence)
  show ?thesis
    using t o first none by auto
qed

theorem origin_is_title_without_first_PORTER_witness:
  "(mirrorByIssues daemonOK (issueOf ('' '' @ ''[PORTER]'' @ '' k8s.gcr.io/[PORTER]pause:3.2 ''))
      (configOf defaultRules ''mirror'' []) =
      Returns (None, ''k8s.gcr.io/[PORTER]pause:3.2'',
               ''mirror/google-containers.[PORTER]pause:3.2'')
    \<and> \<not> sublist ''[PORTER]'' ('' '' @ ''[PORTER'')
    \<and> ''k8s.gcr.io/[PORTER]pause:3.2'' = TrimSpace ('' '' @ '' k8s.gcr.io/[PORTER]pause:3.2 ''))
   \<and> (mirrorByIssues daemonOK (issueOf '' k8s.gcr.io/pause:3.2'')
      (configOf defaultRules ''mirror'' []) =
      Returns (None, ''k8s.gcr.io/pause:3.2'', ''mirror/google-containers.pause:3.2'')
    \<and> \<not> sublist ''[PORTER]'' '' k8s.gcr.io/pause:3.2''
    \<and> ''k8s.gcr.io/pause:3.2'' = TrimSpace '' k8s.gcr.io/pause:3.2'')"
proof -
  have e1: "mirrorByIssues daemonOK
      (issueOf ('' '' @ ''[PORTER]'' @ '' k8s.gcr.io/[PORTER]pause:3.2 ''))
      (configOf defaultRules ''mirror'' []) =
      Returns (None, ''k8s.gcr.io/[PORTER]pause:3.2'',
               ''mirror/google-containers.[PORTER]pause:3.2'')"
    by code_simp
  have s1: "\<not> sublist ''[PORTER]'' ('' '' @ ''[PORTER'')"
    by code_simp
  have e2: "mirrorByIssues daemonOK (issueOf '' k8s.gcr.io/pause:3.2'')
      (configOf defaultRules ''mirror'' []) =
      Returns (None, ''k8s.gcr.io/pause:3.2'', ''mirror/google-containers.pause:3.2'')"
    by code_simp
  have s2: "\<not> sublist ''[PORTER]'' '' k8s.gcr.io/pause:3.2''"
    by code_simp
  from origin_is_title_without_first_PORTER [OF e1, of "'' ''" "'' k8s.gcr.io/[PORTER]pause:3.2 ''"]
    issueOf_Title s1
  have c1: "''k8s.gcr.io/[PORTER]pause:3.2'' = TrimSpace ('' '' @ '' k8s.gcr.io/[PORTER]pause:3.2 '')"
    by blast
  from origin_is_title_without_first_PORTER [OF e2, of _ _ "'' k8s.gcr.io/pause:3.2''"]
    issueOf_Title s2
  have c2: "''k8s.gcr.io/pause:3.2'' = TrimSpace '' k8s.gcr.io/pause:3.2''"
    by blast
  from e1 s1 c1 e2 s2 c2 show ?thesis by blast
qed

text \<open>
  Claim C6, as amended. A rules file that is read and parsed replaces the built-in rules
  as a whole: the effective rule set is the mapping of the file and nothing else. The
  built-in rules, for gcr.io, docker.io, k8s.gcr.io, registry.k8s.io, quay.io and ghcr.io,
  are in effect only when the file cannot be read or cannot be parsed.
\<close>

theorem loadRules_file_replaces_defaults:
  "(ReadFile RulesFileName = Some content \<and> Unmarshal content = Some rules
      \<longrightarrow> loadRules ReadFile Unmarshal = rules)
   \<and> (ReadFile RulesFileName = None
        \<or> (ReadFile RulesFileName = Some content \<and> Unmarshal content = None)
      \<longrightarrow> loadRules ReadFile Unmarshal = defaultRules)
   \<and> map fst defaultRules =
       [''^gcr.io'', ''^docker.io'', ''^k8s.gcr.io'', ''^registry.k8s.io'', ''^quay.io'',
        ''^ghcr.io'']"
  by (auto simp: loadRules_def defaultRules_def)

theorem loadRules_file_replaces_defaults_witness:
  "readFileReturns ''^example.com: example'' RulesFileName = Some ''^example.com: example''
   \<and> unmarshalReturns [(''^example.com'', ''example'')] ''^example.com: example''
       = Some [(''^example.com'', ''example'')]
   \<and> loadRules (readFileReturns ''^example.com: example'')
        (unmarshalReturns [(''^example.com'', ''example'')]) = [(''^example.com'', ''example'')]
   \<and> readFileFails RulesFileName = None
   \<and> loadRules readFileFails (unmarshalReturns [(''^example.com'', ''example'')]) = defaultRules"
proof -
  have r: "readFileReturns ''^example.com: example'' RulesFileName = Some ''^example.com: example''"
    by (simp add: readFileReturns_def)
  have u: "unmarshalReturns [(''^example.com'', ''example'')] ''^example.com: example''
           = Some [(''^example.com'', ''example'')]"
    by (simp add: unmarshalReturns_def)
  have f: "readFileFails RulesFileName = None"
    by (simp add: readFileFails_def)
  from r u loadRules_file_replaces_defaults
    [of "readFileReturns ''^example.com: example''" "''^example.com: example''"
        "unmarshalReturns [(''^example.com'', ''example'')]" "[(''^example.com'', ''example'')]"]
  have a: "loadRules (readFileReturns ''^example.com: example'')
        (unmarshalReturns [(''^example.com'', ''example'')]) = [(''^example.com'', ''example'')]"
    by blast
  from f loadRules_file_replaces_defaults
    [of readFileFails _ "unmarshalReturns [(''^example.com'', ''example'')]"]
  have b: "loadRules readFileFails (unmarshalReturns [(''^example.com'', ''example'')])
           = defaultRules"
    by blast
  from r u a f b show ?thesis by blast
qed

theorem loadRules_defaults_discarded_counterexample:
  "''^gcr.io'' \<notin> set (map fst (loadRules (readFileReturns ''^example.com: example'')
                                  (unmarshalReturns [(''^example.com'', ''example'')])))"
  by code_simp

text \<open>
  Claim C7. Two runs on the same title, with the same rules in the same order, the same
  namespace and the same registry host, have the same result, target included, whatever
  the Docker daemon does and whatever the other settings and the author are.
\<close>

theorem rewrite_deterministic:
  assumes "Title i1 = Title i2"
    and "Rules c1 = Rules c2"
    and "RegistryNamespace c1 = RegistryNamespace c2"
    and "Registry c1 = Registry c2"
    and "GetUserLogin i1 = Some l1"
    and "GetUserLogin i2 = Some l2"
  shows "rewrite (mirrorByIssues d1 i1 c1) = rewrite (mirrorByIssues d2 i2 c2)"
proof -
  have tn: "targetName c1 = targetName c2"
    by (rule ext) (rule targetName_cong [OF assms(3,4)])
  show ?thesis
    unfolding rewrite_mirrorByIssues [OF assms(5)] rewrite_mirrorByIssues [OF assms(6)]
      assms(1) assms(2) tn
    by (rule refl)
qed

theorem rewrite_deterministic_witness:
  "rewrite (mirrorByIssues daemonOK (issueOf ''quay.io/coreos/etcd:v3.5.0'')
             (configOf defaultRules ''mirror'' ''registry.example.com''))
   = rewrite (mirrorByIssues daemonDown
               ((issueOf ''quay.io/coreos/etcd:v3.5.0'')\<lparr>User := Some \<lparr>Login = Some ''hubot''\<rparr>\<rparr>)
               ((configOf defaultRules ''mirror'' ''registry.example.com'')
                  \<lparr>GhUser := ''someone'', RegistryPassword := ''other''\<rparr>))"
proof -
  have t: "Title (issueOf ''quay.io/coreos/etcd:v3.5.0'')
           = Title ((issueOf ''quay.io/coreos/etcd:v3.5.0'')\<lparr>User := Some \<lparr>Login = Some ''hubot''\<rparr>\<rparr>)"
    by simp
  have r: "Rules (configOf defaultRules ''mirror'' ''registry.example.com'')
           = Rules ((configOf defaultRules ''mirror'' ''registry.example.com'')
                      \<lparr>GhUser := ''someone'', RegistryPassword := ''other''\<rparr>)"
    by simp
  have n: "RegistryNamespace (configOf defaultRules ''mirror'' ''registry.example.com'')
           = RegistryNamespace ((configOf defaultRules ''mirror'' ''registry.example.com'')
                      \<lparr>GhUser := ''someone'', RegistryPassword := ''other''\<rparr>)"
    by simp
  have g: "Registry (configOf defaultRules ''mirror'' ''registry.example.com'')
           = Registry ((configOf defaultRules ''mirror'' ''registry.example.com'')
                      \<lparr>GhUser := ''someone'', RegistryPassword := ''other''\<rparr>)"
    by simp
  have l: "GetUserLogin ((issueOf ''quay.io/coreos/etcd:v3.5.0'')
                            \<lparr>User := Some \<lparr>Login = Some ''hubot''\<rparr>\<rparr>) = Some ''hubot''"
    by (simp add: GetUserLogin_def)
  show ?thesis
    by (rule rewrite_deterministic [OF t r n g issueOf_login l])
qed

text \<open>
  Claim C2, as amended. On an issue with a title and an author, \<open>mirrorByIssues\<close> returns,
  with one of the three results, for every title and every rule set whose patterns all
  compile, whatever the patterns and the replacements are. Nothing checks the patterns
  when the rules are loaded: the rules of the file are taken as they are, and a rule set
  with a pattern that does not compile makes \<open>regexp.MustCompile\<close> panic inside
  \<open>mirrorByIssues\<close>, for every source without \<open>@\<close> and wherever the pattern stands in
  the rule set. The statement is about \<open>mirrorByIssuesOn\<close>, for every library.
\<close>

theorem returns_when_patterns_compile:
  "(Title issues = Some title \<and> GetUserLogin issues = Some login
      \<and> list_all (\<lambda>r. MustCompile lib (fst r) \<noteq> None) (Rules config)
     \<longrightarrow> (\<exists>ret. mirrorByIssuesOn lib d issues config = Returns ret
               \<and> rewrite (mirrorByIssuesOn lib d issues config) = Returns (rewriteResult ret)))
   \<and> (Title issues = Some title
        \<and> CHR ''@'' \<notin> set (TrimSpace (Replace title ''[PORTER]'' [] 1))
        \<and> list_ex (\<lambda>r. MustCompile lib (fst r) = None) (Rules config)
     \<longrightarrow> (\<exists>k. k \<in> set (map fst (Rules config)) \<and> MustCompile lib k = None
             \<and> mirrorByIssuesOn lib d issues config = Panics (RegexpMustCompile k)))
   \<and> (ReadFile RulesFileName = Some content \<and> Unmarshal content = Some rules
     \<longrightarrow> loadRules ReadFile Unmarshal = rules)"
proof (intro conjI impI)
  assume a: "Title issues = Some title \<and> GetUserLogin issues = Some login
      \<and> list_all (\<lambda>r. MustCompile lib (fst r) \<noteq> None) (Rules config)"
  let ?origin = "TrimSpace (Replace title ''[PORTER]'' [] 1)"
  from a have "list_all (\<lambda>r. MustCompile lib (fst r) \<noteq> None) (Rules config)"
    by simp
  from applyRulesOn_returns [OF this, of ?origin "[]"] obtain t
    where t: "applyRulesOn lib (Rules config) ?origin [] = Returns (t, map fst (Rules config))"
    by auto
  from a t have "\<exists>ret. mirrorByIssuesOn lib d issues config = Returns ret"
    by (simp add: mirrorByIssuesOn_def Let_def returnToUser_login
          split: option.split sum.split)
  then obtain ret where ret: "mirrorByIssuesOn lib d issues config = Returns ret"
    by blast
  then have "rewrite (mirrorByIssuesOn lib d issues config) = Returns (rewriteResult ret)"
    by simp
  with ret
  show "\<exists>ret. mirrorByIssuesOn lib d issues config = Returns ret
          \<and> rewrite (mirrorByIssuesOn lib d issues config) = Returns (rewriteResult ret)"
    by blast
next
  assume b: "Title issues = Some title
        \<and> CHR ''@'' \<notin> set (TrimSpace (Replace title ''[PORTER]'' [] 1))
        \<and> list_ex (\<lambda>r. MustCompile lib (fst r) = None) (Rules config)"
  let ?origin = "TrimSpace (Replace title ''[PORTER]'' [] 1)"
  from b have "list_ex (\<lambda>r. MustCompile lib (fst r) = None) (Rules config)"
    by simp
  from applyRulesOn_panics [OF this, of ?origin "[]"] obtain k
    where k: "k \<in> set (map fst (Rules config))" "MustCompile lib k = None"
      "applyRulesOn lib (Rules config) ?origin [] = Panics (RegexpMustCompile k)"
    by blast
  from b k(3) have "mirrorByIssuesOn lib d issues config = Panics (RegexpMustCompile k)"
    by (simp add: mirrorByIssuesOn_def Let_def ContainsAny_at)
  with k(1,2)
  show "\<exists>k. k \<in> set (map fst (Rules config)) \<and> MustCompile lib k = None
             \<and> mirrorByIssuesOn lib d issues config = Panics (RegexpMustCompile k)"
    by blast
next
  assume "ReadFile RulesFileName = Some content \<and> Unmarshal content = Some rules"
  then show "loadRules ReadFile Unmarshal = rules"
    by (simp add: loadRules_def)
qed

text \<open>
  The witness: the built-in rules on a failing daemon; a rule set whose second pattern
  does not compile; and the rules file \<open>"*.gcr.io": mirror\<close>.
\<close>

theorem returns_when_patterns_compile_witness:
  "(list_all (\<lambda>r. MustCompile libSample (fst r) \<noteq> None) (Rules (configOf defaultRules ''mirror'' []))
    \<and> (\<exists>ret. mirrorByIssuesOn libSample daemonDown
                (issueOf ''[PORTER] registry.k8s.io/kube-proxy:v1.28.0'')
                (configOf defaultRules ''mirror'' []) = Returns ret
              \<and> rewrite (mirrorByIssuesOn libSample daemonDown
                (issueOf ''[PORTER] registry.k8s.io/kube-proxy:v1.28.0'')
                (configOf defaultRules ''mirror'' [])) = Returns (rewriteResult ret)))
   \<and> (CHR ''@'' \<notin> set (TrimSpace (Replace ''k8s.gcr.io/pause:3.2'' ''[PORTER]'' [] 1))
    \<and> list_ex (\<lambda>r. MustCompile libSample (fst r) = None)
         (Rules (configOf [(''^gcr.io'', []), (''*.gcr.io'', ''mirror'')] ''mirror'' []))
    \<and> mirrorByIssuesOn libSample daemonOK (issueOf ''k8s.gcr.io/pause:3.2'')
        (configOf [(''^gcr.io'', []), (''*.gcr.io'', ''mirror'')] ''mirror'' [])
       = Panics (RegexpMustCompile ''*.gcr.io''))
   \<and> loadRules (readFileReturns ([CHR 0x22] @ ''*.gcr.io'' @ [CHR 0x22] @ '': mirror''))
        (unmarshalReturns [(''*.gcr.io'', ''mirror'')]) = [(''*.gcr.io'', ''mirror'')]"
proof -
  have p: "list_all (\<lambda>r. MustCompile libSample (fst r) \<noteq> None)
             (Rules (configOf defaultRules ''mirror'' []))"
    by code_simp
  have h1: "Title (issueOf ''[PORTER] registry.k8s.io/kube-proxy:v1.28.0'')
              = Some ''[PORTER] registry.k8s.io/kube-proxy:v1.28.0''
      \<and> GetUserLogin (issueOf ''[PORTER] registry.k8s.io/kube-proxy:v1.28.0'') = Some ''octocat''
      \<and> list_all (\<lambda>r. MustCompile libSample (fst r) \<noteq> None)
            (Rules (configOf defaultRules ''mirror'' []))"
    using issueOf_Title issueOf_login p by (intro conjI)
  from returns_when_patterns_compile
      [of "issueOf ''[PORTER] registry.k8s.io/kube-proxy:v1.28.0''"
          "''[PORTER] registry.k8s.io/kube-proxy:v1.28.0''" "''octocat''"
          libSample "configOf defaultRules ''mirror'' []" daemonDown,
       THEN conjunct1, rule_format, OF h1]
  have r1: "\<exists>ret. mirrorByIssuesOn libSample daemonDown
                (issueOf ''[PORTER] registry.k8s.io/kube-proxy:v1.28.0'')
                (configOf defaultRules ''mirror'' []) = Returns ret
              \<and> rewrite (mirrorByIssuesOn libSample daemonDown
                (issueOf ''[PORTER] registry.k8s.io/kube-proxy:v1.28.0'')
                (configOf defaultRules ''mirror'' [])) = Returns (rewriteResult ret)" .
  have n: "CHR ''@'' \<notin> set (TrimSpace (Replace ''k8s.gcr.io/pause:3.2'' ''[PORTER]'' [] 1))"
    by code_simp
  have e: "list_ex (\<lambda>r. MustCompile libSample (fst r) = None)
         (Rules (configOf [(''^gcr.io'', []), (''*.gcr.io'', ''mirror'')] ''mirror'' []))"
    by code_simp
  have ks: "set (map fst (Rules (configOf [(''^gcr.io'', []), (''*.gcr.io'', ''mirror'')]
                                 ''mirror'' []))) = {''^gcr.io'', ''*.gcr.io''}"
    by (simp add: configOf_def)
  have ok: "MustCompile libSample ''^gcr.io'' \<noteq> None"
    by code_simp
  have h2: "Title (issueOf ''k8s.gcr.io/pause:3.2'') = Some ''k8s.gcr.io/pause:3.2''
      \<and> CHR ''@'' \<notin> set (TrimSpace (Replace ''k8s.gcr.io/pause:3.2'' ''[PORTER]'' [] 1))
      \<and> list_ex (\<lambda>r. MustCompile libSample (fst r) = None)
            (Rules (configOf [(''^gcr.io'', []), (''*.gcr.io'', ''mirror'')] ''mirror'' []))"
    using issueOf_Title n e by (intro conjI)
  from returns_when_patterns_compile
      [of "issueOf ''k8s.gcr.io/pause:3.2''" "''k8s.gcr.io/pause:3.2''" "''octocat''"
          libSample "configOf [(''^gcr.io'', []), (''*.gcr.io'', ''mirror'')] ''mirror'' []"
          daemonOK,
       THEN conjunct2, THEN conjunct1, rule_format, OF h2]
  obtain k where k: "k \<in> set (map fst (Rules (configOf [(''^gcr.io'', []), (''*.gcr.io'', ''mirror'')]
                                 ''mirror'' [])))"
      "MustCompile libSample k = None"
      "mirrorByIssuesOn libSample daemonOK (issueOf ''k8s.gcr.io/pause:3.2'')
        (configOf [(''^gcr.io'', []), (''*.gcr.io'', ''mirror'')] ''mirror'' [])
       = Panics (RegexpMustCompile k)"
    by blast
  from k(1) ks have "k = ''^gcr.io'' \<or> k = ''*.gcr.io''"
    by (simp only: insert_iff empty_iff) blast
  with k(2) ok have "k = ''*.gcr.io''"
    by auto
  with k(3) have r2: "mirrorByIssuesOn libSample daemonOK (issueOf ''k8s.gcr.io/pause:3.2'')
        (configOf [(''^gcr.io'', []), (''*.gcr.io'', ''mirror'')] ''mirror'' [])
       = Panics (RegexpMustCompile ''*.gcr.io'')"
    by simp
  have rf: "readFileReturns ([CHR 0x22] @ ''*.gcr.io'' @ [CHR 0x22] @ '': mirror'') RulesFileName
            = Some ([CHR 0x22] @ ''*.gcr.io'' @ [CHR 0x22] @ '': mirror'')"
    by (simp add: readFileReturns_def)
  have um: "unmarshalReturns [(''*.gcr.io'', ''mirror'')]
              ([CHR 0x22] @ ''*.gcr.io'' @ [CHR 0x22] @ '': mirror'')
            = Some [(''*.gcr.io'', ''mirror'')]"
    by (simp add: unmarshalReturns_def)
  have h3: "readFileReturns ([CHR 0x22] @ ''*.gcr.io'' @ [CHR 0x22] @ '': mirror'') RulesFileName
            = Some ([CHR 0x22] @ ''*.gcr.io'' @ [CHR 0x22] @ '': mirror'')
      \<and> unmarshalReturns [(''*.gcr.io'', ''mirror'')]
              ([CHR 0x22] @ ''*.gcr.io'' @ [CHR 0x22] @ '': mirror'')
            = Some [(''*.gcr.io'', ''mirror'')]"
    using rf um by (intro conjI)
  from returns_when_patterns_compile
      [of "issueOf ''k8s.gcr.io/pause:3.2''" "''k8s.gcr.io/pause:3.2''" "''octocat''"
          libSample "configOf defaultRules ''mirror'' []" daemonOK
          "readFileReturns ([CHR 0x22] @ ''*.gcr.io'' @ [CHR 0x22] @ '': mirror'')"
          "[CHR 0x22] @ ''*.gcr.io'' @ [CHR 0x22] @ '': mirror''"
          "unmarshalReturns [(''*.gcr.io'', ''mirror'')]" "[(''*.gcr.io'', ''mirror'')]",
       THEN conjunct2, THEN conjunct2, rule_format, OF h3]
  have r3: "loadRules (readFileReturns ([CHR 0x22] @ ''*.gcr.io'' @ [CHR 0x22] @ '': mirror''))
        (unmarshalReturns [(''*.gcr.io'', ''mirror'')]) = [(''*.gcr.io'', ''mirror'')]" .
  from p r1 n e r2 r3 show ?thesis by blast
qed

text \<open>
  The rules file \<open>"*.gcr.io": mirror\<close> is read and parsed without complaint, and the
  first issue handled afterwards makes the program panic.
\<close>

theorem bad_pattern_panics_counterexample:
  "mirrorByIssues daemonOK (issueOf ''gcr.io/pause:3.2'')
     (configOf (loadRules (readFileReturns ([CHR 0x22] @ ''*.gcr.io'' @ [CHR 0x22] @ '': mirror''))
                          (unmarshalReturns [(''*.gcr.io'', ''mirror'')]))
               ''mirror'' [])
   = Panics (RegexpMustCompile ''*.gcr.io'')"
  by code_simp

text \<open>
  Claim C1. The specification expects the target \<open>mirror/google-containers.pause:3.2\<close>
  for the source \<open>gcr.io/google-containers/pause:3.2\<close>, the rule \<open>^gcr.io\<close> with the
  empty replacement and the namespace \<open>mirror\<close>. The program returns another target: the
  rule leaves \<open>/google-containers/pause:3.2\<close>, whose leading slash the flattening turns
  into a dot.
\<close>

theorem gcr_target_has_leading_dot:
  "rewrite (mirrorByIssues d
      \<lparr>Title = Some ''gcr.io/google-containers/pause:3.2'', User = Some \<lparr>Login = Some login\<rparr>\<rparr>
      (configOf [(''^gcr.io'', [])] ''mirror'' []))
   = Returns (Rewritten ''mirror/.google-containers.pause:3.2'')"
proof (rule rewritten_path)
  show "Title \<lparr>Title = Some ''gcr.io/google-containers/pause:3.2'',
               User = Some \<lparr>Login = Some login\<rparr>\<rparr>
        = Some ''gcr.io/google-containers/pause:3.2''"
    by simp
  show "TrimSpace (Replace ''gcr.io/google-containers/pause:3.2'' ''[PORTER]'' [] 1)
        = ''gcr.io/google-containers/pause:3.2''"
    by code_simp
  show "CHR ''@'' \<notin> set ''gcr.io/google-containers/pause:3.2''"
    by code_simp
  show "applyRules (Rules (configOf [(''^gcr.io'', [])] ''mirror'' []))
          ''gcr.io/google-containers/pause:3.2'' []
        = Returns (''/google-containers/pause:3.2'', [''^gcr.io''])"
    by code_simp
  show "EqualFold ''/google-containers/pause:3.2'' ''gcr.io/google-containers/pause:3.2''
        = Some False"
    by code_simp
  show "targetName (configOf [(''^gcr.io'', [])] ''mirror'' []) ''/google-containers/pause:3.2''
        = ''mirror/.google-containers.pause:3.2''"
    by code_simp
  show "GetUserLogin \<lparr>Title = Some ''gcr.io/google-containers/pause:3.2'',
                      User = Some \<lparr>Login = Some login\<rparr>\<rparr> = Some login"
    by (simp add: GetUserLogin_def)
qed

text \<open>
  Claim C5. On every run that reaches the flattening, the target is made of the whole
  string that the rules have produced, with every slash replaced by a dot and nothing
  else changed, behind the registry and the namespace: the slashes that a replacement has
  brought in are flattened with the rest. The rule \<open>^k8s.gcr.io\<close> with the replacement
  \<open>mirror/google-containers\<close> turns \<open>k8s.gcr.io/pause:3.2\<close> into
  \<open>mirror/google-containers/pause:3.2\<close>, and the target is
  \<open>mirror.google-containers.pause:3.2\<close>.
\<close>

theorem flattening_covers_replacement:
  "(Title issues = Some title
      \<and> CHR ''@'' \<notin> set (TrimSpace (Replace title ''[PORTER]'' [] 1))
      \<and> applyRules (Rules config) (TrimSpace (Replace title ''[PORTER]'' [] 1)) []
          = Returns (substituted, registries)
      \<and> EqualFold substituted (TrimSpace (Replace title ''[PORTER]'' [] 1)) = Some False
      \<and> GetUserLogin issues = Some author
     \<longrightarrow> rewrite (mirrorByIssues daemon issues config) =
           Returns (Rewritten
             ((if 0 < length (Registry config) then Registry config @ ''/'' else [])
              @ (if 0 < length (RegistryNamespace config)
                 then RegistryNamespace config @ ''/'' else [])
              @ map (\<lambda>c. if c = CHR ''/'' then CHR ''.'' else c) substituted)))
   \<and> ReplaceAll s ''/'' ''.'' = map (\<lambda>c. if c = CHR ''/'' then CHR ''.'' else c) s
   \<and> applyRules [(''^k8s.gcr.io'', ''mirror/google-containers'')] ''k8s.gcr.io/pause:3.2'' []
       = Returns (''mirror/google-containers/pause:3.2'', [''^k8s.gcr.io''])
   \<and> rewrite (mirrorByIssues d
        \<lparr>Title = Some ''k8s.gcr.io/pause:3.2'', User = Some \<lparr>Login = Some login\<rparr>\<rparr>
        (configOf [(''^k8s.gcr.io'', ''mirror/google-containers'')] [] []))
       = Returns (Rewritten ''mirror.google-containers.pause:3.2'')"
proof (intro conjI impI)
  assume a: "Title issues = Some title
      \<and> CHR ''@'' \<notin> set (TrimSpace (Replace title ''[PORTER]'' [] 1))
      \<and> applyRules (Rules config) (TrimSpace (Replace title ''[PORTER]'' [] 1)) []
          = Returns (substituted, registries)
      \<and> EqualFold substituted (TrimSpace (Replace title ''[PORTER]'' [] 1)) = Some False
      \<and> GetUserLogin issues = Some author"
  have tn: "targetName config substituted =
      (if 0 < length (Registry config) then Registry config @ ''/'' else [])
      @ (if 0 < length (RegistryNamespace config) then RegistryNamespace config @ ''/'' else [])
      @ map (\<lambda>c. if c = CHR ''/'' then CHR ''.'' else c) substituted"
    by (simp add: targetName_def Let_def ReplaceAll_def Replace_char_all)
  from a have t: "Title issues = Some title"
    and n: "CHR ''@'' \<notin> set (TrimSpace (Replace title ''[PORTER]'' [] 1))"
    and ap: "applyRules (Rules config) (TrimSpace (Replace title ''[PORTER]'' [] 1)) []
             = Returns (substituted, registries)"
    and ef: "EqualFold substituted (TrimSpace (Replace title ''[PORTER]'' [] 1)) = Some False"
    and lg: "GetUserLogin issues = Some author"
    by blast+
  have "rewrite (mirrorByIssues daemon issues config)
        = Returns (Rewritten (targetName config substituted))"
    by (rule rewritten_path [OF t refl n ap ef refl lg])
  then show "rewrite (mirrorByIssues daemon issues config) =
           Returns (Rewritten
             ((if 0 < length (Registry config) then Registry config @ ''/'' else [])
              @ (if 0 < length (RegistryNamespace config)
                 then RegistryNamespace config @ ''/'' else [])
              @ map (\<lambda>c. if c = CHR ''/'' then CHR ''.'' else c) substituted))"
    by (simp only: tn)
next
  show "ReplaceAll s ''/'' ''.'' = map (\<lambda>c. if c = CHR ''/'' then CHR ''.'' else c) s"
    by (simp add: ReplaceAll_def Replace_char_all)
next
  show "applyRules [(''^k8s.gcr.io'', ''mirror/google-containers'')] ''k8s.gcr.io/pause:3.2'' []
       = Returns (''mirror/google-containers/pause:3.2'', [''^k8s.gcr.io''])"
    by code_simp
next
  show "rewrite (mirrorByIssues d
        \<lparr>Title = Some ''k8s.gcr.io/pause:3.2'', User = Some \<lparr>Login = Some login\<rparr>\<rparr>
        (configOf [(''^k8s.gcr.io'', ''mirror/google-containers'')] [] []))
       = Returns (Rewritten ''mirror.google-containers.pause:3.2'')"
  proof (rule rewritten_path)
    show "Title \<lparr>Title = Some ''k8s.gcr.io/pause:3.2'', User = Some \<lparr>Login = Some login\<rparr>\<rparr>
          = Some ''k8s.gcr.io/pause:3.2''"
      by simp
    show "TrimSpace (Replace ''k8s.gcr.io/pause:3.2'' ''[PORTER]'' [] 1) = ''k8s.gcr.io/pause:3.2''"
      by code_simp
    show "CHR ''@'' \<notin> set ''k8s.gcr.io/pause:3.2''"
      by code_simp
    show "applyRules (Rules (configOf [(''^k8s.gcr.io'', ''mirror/google-containers'')] [] []))
            ''k8s.gcr.io/pause:3.2'' []
          = Returns (''mirror/google-containers/pause:3.2'', [''^k8s.gcr.io''])"
      by code_simp
    show "EqualFold ''mirror/google-containers/pause:3.2'' ''k8s.gcr.io/pause:3.2'' = Some False"
      by code_simp
    show "targetName (configOf [(''^k8s.gcr.io'', ''mirror/google-containers'')] [] [])
            ''mirror/google-containers/pause:3.2''
          = ''mirror.google-containers.pause:3.2''"
      by code_simp
    show "GetUserLogin \<lparr>Title = Some ''k8s.gcr.io/pause:3.2'',
                        User = Some \<lparr>Login = Some login\<rparr>\<rparr> = Some login"
      by (simp add: GetUserLogin_def)
  qed
qed

text \<open>
  The witness is the same rule with a namespace and a registry set, on a daemon that
  cannot be reached.
\<close>

theorem flattening_covers_replacement_witness:
  "CHR ''@'' \<notin> set (TrimSpace (Replace ''[PORTER] k8s.gcr.io/pause:3.2'' ''[PORTER]'' [] 1))
   \<and> applyRules (Rules (configOf [(''^k8s.gcr.io'', ''mirror/google-containers'')]
                          ''ns'' ''registry.example.com''))
        (TrimSpace (Replace ''[PORTER] k8s.gcr.io/pause:3.2'' ''[PORTER]'' [] 1)) []
      = Returns (''mirror/google-containers/pause:3.2'', [''^k8s.gcr.io''])
   \<and> EqualFold ''mirror/google-containers/pause:3.2''
        (TrimSpace (Replace ''[PORTER] k8s.gcr.io/pause:3.2'' ''[PORTER]'' [] 1)) = Some False
   \<and> rewrite (mirrorByIssues daemonDown (issueOf ''[PORTER] k8s.gcr.io/pause:3.2'')
        (configOf [(''^k8s.gcr.io'', ''mirror/google-containers'')] ''ns'' ''registry.example.com''))
      = Returns (Rewritten ''registry.example.com/ns/mirror.google-containers.pause:3.2'')"
proof -
  have n: "CHR ''@'' \<notin> set (TrimSpace (Replace ''[PORTER] k8s.gcr.io/pause:3.2'' ''[PORTER]'' [] 1))"
    by code_simp
  have a: "applyRules (Rules (configOf [(''^k8s.gcr.io'', ''mirror/google-containers'')]
                          ''ns'' ''registry.example.com''))
        (TrimSpace (Replace ''[PORTER] k8s.gcr.io/pause:3.2'' ''[PORTER]'' [] 1)) []
      = Returns (''mirror/google-containers/pause:3.2'', [''^k8s.gcr.io''])"
    by code_simp
  have f: "EqualFold ''mirror/google-containers/pause:3.2''
        (TrimSpace (Replace ''[PORTER] k8s.gcr.io/pause:3.2'' ''[PORTER]'' [] 1)) = Some False"
    by code_simp
  have v: "(if 0 < length (Registry (configOf [(''^k8s.gcr.io'', ''mirror/google-containers'')]
                                        ''ns'' ''registry.example.com''))
            then Registry (configOf [(''^k8s.gcr.io'', ''mirror/google-containers'')]
                                        ''ns'' ''registry.example.com'') @ ''/'' else [])
           @ (if 0 < length (RegistryNamespace
                               (configOf [(''^k8s.gcr.io'', ''mirror/google-containers'')]
                                        ''ns'' ''registry.example.com''))
              then RegistryNamespace (configOf [(''^k8s.gcr.io'', ''mirror/google-containers'')]
                                        ''ns'' ''registry.example.com'') @ ''/'' else [])
           @ map (\<lambda>c. if c = CHR ''/'' then CHR ''.'' else c) ''mirror/google-containers/pause:3.2''
           = ''registry.example.com/ns/mirror.google-containers.pause:3.2''"
    by code_simp
  note general = flattening_covers_replacement
      [of "issueOf ''[PORTER] k8s.gcr.io/pause:3.2''" "''[PORTER] k8s.gcr.io/pause:3.2''"
          "configOf [(''^k8s.gcr.io'', ''mirror/google-containers'')] ''ns'' ''registry.example.com''"
          "''mirror/google-containers/pause:3.2''" "[''^k8s.gcr.io'']" "''octocat''" daemonDown,
       THEN conjunct1, rule_format]
  have h: "Title (issueOf ''[PORTER] k8s.gcr.io/pause:3.2'') = Some ''[PORTER] k8s.gcr.io/pause:3.2''
      \<and> CHR ''@'' \<notin> set (TrimSpace (Replace ''[PORTER] k8s.gcr.io/pause:3.2'' ''[PORTER]'' [] 1))
      \<and> applyRules (Rules (configOf [(''^k8s.gcr.io'', ''mirror/google-containers'')]
                          ''ns'' ''registry.example.com''))
            (TrimSpace (Replace ''[PORTER] k8s.gcr.io/pause:3.2'' ''[PORTER]'' [] 1)) []
          = Returns (''mirror/google-containers/pause:3.2'', [''^k8s.gcr.io''])
      \<and> EqualFold ''mirror/google-containers/pause:3.2''
            (TrimSpace (Replace ''[PORTER] k8s.gcr.io/pause:3.2'' ''[PORTER]'' [] 1)) = Some False
      \<and> GetUserLogin (issueOf ''[PORTER] k8s.gcr.io/pause:3.2'') = Some ''octocat''"
    using issueOf_Title n a f issueOf_login by (intro conjI)
  from general [OF h]
  have "rewrite (mirrorByIssues daemonDown (issueOf ''[PORTER] k8s.gcr.io/pause:3.2'')
        (configOf [(''^k8s.gcr.io'', ''mirror/google-containers'')] ''ns'' ''registry.example.com''))
      = Returns (Rewritten
          ((if 0 < length (Registry (configOf [(''^k8s.gcr.io'', ''mirror/google-containers'')]
                                        ''ns'' ''registry.example.com''))
            then Registry (configOf [(''^k8s.gcr.io'', ''mirror/google-containers'')]
                                        ''ns'' ''registry.example.com'') @ ''/'' else [])
           @ (if 0 < length (RegistryNamespace
                               (configOf [(''^k8s.gcr.io'', ''mirror/google-containers'')]
                                        ''ns'' ''registry.example.com''))
              then RegistryNamespace (configOf [(''^k8s.gcr.io'', ''mirror/google-containers'')]
                                        ''ns'' ''registry.example.com'') @ ''/'' else [])
           @ map (\<lambda>c. if c = CHR ''/'' then CHR ''.'' else c) ''mirror/google-containers/pause:3.2''))" .
  then have r: "rewrite (mirrorByIssues daemonDown (issueOf ''[PORTER] k8s.gcr.io/pause:3.2'')
        (configOf [(''^k8s.gcr.io'', ''mirror/google-containers'')] ''ns'' ''registry.example.com''))
      = Returns (Rewritten ''registry.example.com/ns/mirror.google-containers.pause:3.2'')"
    by (simp only: v)
  from n a f r show ?thesis by blast
qed

end
